theory Spec2Isabelle
  imports Complex_Main "HOL-Library.Code_Target_Nat"
begin

section \<open>uplite: a shallow embedding of \<^verbatim>\<open>src/uplite.js\<close>\<close>

text \<open>
  The program is one Express application: two body parsers, a basic-auth check, a multer
  upload route, and listing, info and delete routes over one directory. The embedding
  keeps the handlers of \<^verbatim>\<open>uplite.js\<close> as functions from the configured settings, the
  request and the filesystem to a response, the filesystem afterwards and the console
  output. Where other requests may change the filesystem while a handler waits for an
  awaited call, and a property depends on it (the listing, the confirming delete), the
  handler takes the filesystem once for each of its calls.

  Express, its body parsers, multer and fs-extra are libraries and no part of the
  sources. What they decide on their own is an input of the model where it depends on
  data the model does not hold (whether a body parses, whether the system lets the
  process remove an entry), and is written out, and said to be theirs, where the
  handlers of the source build on it (the order in which multer treats the parts of an
  upload).

  A JavaScript string is modelled as a \<^typ>\<open>string\<close>: one \<^typ>\<open>char\<close> stands for one
  UTF-16 code unit, restricted to the code units below 256.
\<close>

subsection \<open>String methods and regular expressions used by the source\<close>

definition code_in :: "nat \<Rightarrow> nat \<Rightarrow> char \<Rightarrow> bool" where
  "code_in lo hi c = (lo \<le> of_char c \<and> (of_char c :: nat) \<le> hi)"

text \<open>The character class \<^verbatim>\<open>[a-zA-Z0-9_\-.]\<close> of line 72.\<close>

definition is_name_char :: "char \<Rightarrow> bool" where
  "is_name_char c = (code_in 97 122 c \<or> code_in 65 90 c \<or> code_in 48 57 c
     \<or> c = CHR ''_'' \<or> c = CHR ''-'' \<or> c = CHR ''.'')"

text \<open>
  The class \<^verbatim>\<open>\s\<close> of line 73, which is also what \<^verbatim>\<open>trim\<close> strips: tab, line feed,
  vertical tab, form feed, carriage return, space and (below 256) the no-break space.
\<close>

definition is_space :: "char \<Rightarrow> bool" where
  "is_space c = (code_in 9 13 c \<or> c = CHR '' '' \<or> of_char c = (160::nat))"

text \<open>\<^verbatim>\<open>s.replace(/[^a-zA-Z0-9_\-.]/g, "_")\<close>: every match is one character.\<close>

definition replace_unsafe :: "string \<Rightarrow> string" where
  "replace_unsafe s = map (\<lambda>c. if is_name_char c then c else CHR ''_'') s"

text \<open>\<^verbatim>\<open>s.replace(/\s+/g, "_")\<close>: every maximal run of whitespace becomes one underscore.\<close>

function replace_ws_runs :: "string \<Rightarrow> string" where
  "replace_ws_runs [] = []"
| "replace_ws_runs (c # cs) =
     (if is_space c then CHR ''_'' # replace_ws_runs (dropWhile is_space cs)
      else c # replace_ws_runs cs)"
  by pat_completeness auto
termination
  by (relation "measure length") (auto simp: less_Suc_eq_le length_dropWhile_le)

text \<open>
  A template literal renders a non-negative integer below \<open>10\<^sup>2\<^sup>1\<close> (as every
  \<^verbatim>\<open>Date.now()\<close> is) in decimal digits.
\<close>

fun number_to_string :: "nat \<Rightarrow> string" where
  "number_to_string n =
     (if n < 10 then [''0123456789'' ! n]
      else number_to_string (n div 10) @ [''0123456789'' ! (n mod 10)])"

declare number_to_string.simps [simp del]

text \<open>\<^verbatim>\<open>s.split(sep)\<close> for a one-character separator; \<^verbatim>\<open>"".split(",")\<close> is \<^verbatim>\<open>[""]\<close>.\<close>

fun split_on :: "char \<Rightarrow> string \<Rightarrow> string list" where
  "split_on sep [] = [[]]"
| "split_on sep (c # cs) =
     (if c = sep then [] # split_on sep cs
      else (case split_on sep cs of
              [] \<Rightarrow> [[c]]
            | piece # pieces \<Rightarrow> (c # piece) # pieces))"

text \<open>\<^verbatim>\<open>parts.join(sep)\<close>.\<close>

fun join_with :: "string \<Rightarrow> string list \<Rightarrow> string" where
  "join_with sep [] = []"
| "join_with sep [s] = s"
| "join_with sep (s # t # ss) = s @ sep @ join_with sep (t # ss)"

definition trim :: "string \<Rightarrow> string" where
  "trim s = rev (dropWhile is_space (rev (dropWhile is_space s)))"

text \<open>
  \<^verbatim>\<open>toLowerCase\<close> on the code units below 256: the letters A to Z, and the Latin-1 capitals
  192 to 222 without the multiplication sign 215, move up by 32.
\<close>

definition lower_char :: "char \<Rightarrow> char" where
  "lower_char c =
     (if code_in 65 90 c \<or> (code_in 192 222 c \<and> of_char c \<noteq> (215::nat))
      then char_of (of_char c + (32::nat)) else c)"

definition toLowerCase :: "string \<Rightarrow> string" where
  "toLowerCase s = map lower_char s"

text \<open>\<^verbatim>\<open>s.replace(".", "")\<close> with a string pattern removes the first dot only.\<close>

definition remove_first_dot :: "string \<Rightarrow> string" where
  "remove_first_dot s = remove1 (CHR ''.'') s"

text \<open>The messages of Node's filesystem errors name the path in single quotes.\<close>

definition quoted :: "string \<Rightarrow> string" where
  "quoted s = CHR 0x27 # s @ [CHR 0x27]"

definition starts_with :: "string \<Rightarrow> string \<Rightarrow> bool" where
  "starts_with pre s = (take (length pre) s = pre)"

subsection \<open>Node's \<^verbatim>\<open>path\<close> module (POSIX)\<close>

text \<open>
  \<^verbatim>\<open>path.basename(p)\<close>: trailing slashes are skipped, and the result is what stands between
  the last remaining slash and them; the empty string when \<open>p\<close> holds slashes only.
\<close>

definition path_basename :: "string \<Rightarrow> string" where
  "path_basename p =
     rev (takeWhile (\<lambda>c. c \<noteq> CHR ''/'') (dropWhile (\<lambda>c. c = CHR ''/'') (rev p)))"

text \<open>
  \<^verbatim>\<open>path.extname(p)\<close>: from the last dot of the base name to its end; empty when the base
  name has no dot, when its only dot is its first character, and when it is \<^verbatim>\<open>..\<close>.
\<close>

definition path_extname :: "string \<Rightarrow> string" where
  "path_extname p =
     (let base = path_basename p;
          ext = rev (takeWhile (\<lambda>c. c \<noteq> CHR ''.'') (rev base))
      in if CHR ''.'' \<notin> set base then []
         else if length ext + 1 = length base then []
         else if base = ''..'' then []
         else CHR ''.'' # ext)"

text \<open>
  \<^verbatim>\<open>normalizeString\<close>, segment by segment: empty segments and \<^verbatim>\<open>.\<close> are dropped, \<^verbatim>\<open>..\<close>
  removes the segment before it (and is kept, above the start of a relative path only,
  when there is none to remove), every other segment is appended.
\<close>

fun normalize_segments :: "bool \<Rightarrow> string list \<Rightarrow> string list \<Rightarrow> string list" where
  "normalize_segments allowAboveRoot res [] = res"
| "normalize_segments allowAboveRoot res (seg # segs) =
     (if seg = [] \<or> seg = ''.'' then normalize_segments allowAboveRoot res segs
      else if seg = ''..'' then
        (if res \<noteq> [] \<and> last res \<noteq> ''..''
         then normalize_segments allowAboveRoot (butlast res) segs
         else if allowAboveRoot then normalize_segments allowAboveRoot (res @ [''..'']) segs
         else normalize_segments allowAboveRoot res segs)
      else normalize_segments allowAboveRoot (res @ [seg]) segs)"

definition normalizeString :: "string \<Rightarrow> bool \<Rightarrow> string" where
  "normalizeString p allowAboveRoot =
     join_with ''/'' (normalize_segments allowAboveRoot [] (split_on (CHR ''/'') p))"

definition path_normalize :: "string \<Rightarrow> string" where
  "path_normalize p =
     (if p = [] then ''.''
      else
        let isAbsolute = (hd p = CHR ''/'');
            trailingSeparator = (last p = CHR ''/'');
            res = normalizeString p (\<not> isAbsolute)
        in if res = [] then
             (if isAbsolute then ''/'' else if trailingSeparator then ''./'' else ''.'')
           else
             (let res' = (if trailingSeparator then res @ ''/'' else res)
              in if isAbsolute then CHR ''/'' # res' else res'))"

text \<open>\<^verbatim>\<open>path.join(a, b)\<close>: the non-empty arguments joined by a slash, then normalized.\<close>

definition path_join :: "string \<Rightarrow> string \<Rightarrow> string" where
  "path_join a b =
     (let args = filter (\<lambda>arg. arg \<noteq> []) [a, b]
      in if args = [] then ''.'' else path_normalize (join_with ''/'' args))"

text \<open>
  What \<^verbatim>\<open>path.resolve\<close> returns (line 29): an absolute, normalized path without a
  trailing slash, the root apart.
\<close>

definition is_resolved :: "string \<Rightarrow> bool" where
  "is_resolved d =
     (d \<noteq> [] \<and> hd d = CHR ''/'' \<and> path_normalize d = d
      \<and> (d = ''/'' \<or> last d \<noteq> CHR ''/''))"

subsection \<open>Settings (lines 13 to 34)\<close>

text \<open>
  minimist hands an option over as a string, as a number when its text looks like one,
  or as a boolean when it is given without a value. \<^verbatim>\<open>!==\<close> between a string and such a
  value holds unless the value is that very string.
\<close>

datatype argval = AString string | ANumber int | ABoolean bool

fun strict_neq :: "string \<Rightarrow> argval \<Rightarrow> bool" where
  "strict_neq s (AString t) = (s \<noteq> t)"
| "strict_neq s (ANumber n) = True"
| "strict_neq s (ABoolean b) = True"

record settings =
  username :: argval
  password :: argval
  uploadDir :: string
  maxFiles :: nat
  maxSize :: nat
  allowedExtensions :: "string list"

text \<open>Lines 32 to 34: an empty option string is falsy and gives the empty list.\<close>

definition parse_extensions :: "string \<Rightarrow> string list" where
  "parse_extensions extensions =
     (if extensions = [] then []
      else map (\<lambda>ext. toLowerCase (trim ext)) (split_on (CHR '','') extensions))"

subsection \<open>The filesystem\<close>

text \<open>
  The filesystem is an association list from absolute, normalized paths to what
  \<^verbatim>\<open>fs.stat\<close> reports of them; its order is the order in which a directory is enumerated.
  \<^verbatim>\<open>size\<close> is in bytes, \<^verbatim>\<open>mtimeMs\<close> is a fractional number of milliseconds. With an entry
  goes what the system does when the process asks to remove it (\<^verbatim>\<open>unlink\<close> of a file,
  \<^verbatim>\<open>rmdir\<close> of a directory that is empty or not): \<open>remove_error\<close> is \<open>None\<close> when it lets the
  process, and the error with which it refuses otherwise (\<^verbatim>\<open>EACCES\<close> when the process may
  not write to the directory that holds the entry, say). An error of the system is given
  by its code and its message.
\<close>

datatype kind = RegularFile | Directory

type_synonym fs_error = "string \<times> string"

definition node_error :: "string \<Rightarrow> string \<Rightarrow> string \<Rightarrow> string \<Rightarrow> fs_error" where
  "node_error code description syscall p =
     (code, code @ '': '' @ description @ '', '' @ syscall @ '' '' @ quoted p)"

record stats =
  kind :: kind
  size_bytes :: nat
  mtimeMs :: rat
  remove_error :: "fs_error option"

type_synonym fs = "(string \<times> stats) list"

definition fs_stat :: "fs \<Rightarrow> string \<Rightarrow> stats option" where
  "fs_stat disk p = map_of disk p"

definition pathExists :: "fs \<Rightarrow> string \<Rightarrow> bool" where
  "pathExists disk p = (fs_stat disk p \<noteq> None)"

definition is_directory :: "fs \<Rightarrow> string \<Rightarrow> bool" where
  "is_directory disk p = (case fs_stat disk p of None \<Rightarrow> False | Some st \<Rightarrow> kind st = Directory)"

definition dir_prefix :: "string \<Rightarrow> string" where
  "dir_prefix d = (if d = ''/'' then ''/'' else d @ ''/'')"

text \<open>\<open>is_under d p\<close>: the path \<open>p\<close> is the directory \<open>d\<close> or lies below it.\<close>

definition is_under :: "string \<Rightarrow> string \<Rightarrow> bool" where
  "is_under d p = (p = d \<or> starts_with (dir_prefix d) p)"

text \<open>The name under which \<open>p\<close> is an entry directly in the directory \<open>d\<close>, if it is one.\<close>

definition entry_name :: "string \<Rightarrow> string \<Rightarrow> string option" where
  "entry_name d p =
     (let name = drop (length (dir_prefix d)) p
      in if starts_with (dir_prefix d) p \<and> name \<noteq> [] \<and> CHR ''/'' \<notin> set name
         then Some name else None)"

text \<open>\<^verbatim>\<open>fs.readdir(d)\<close>: fails (\<open>None\<close>) when \<open>d\<close> is not an existing directory.\<close>

definition readdir :: "fs \<Rightarrow> string \<Rightarrow> string list option" where
  "readdir disk d =
     (if is_directory disk d then Some (List.map_filter (\<lambda>(p, st). entry_name d p) disk)
      else None)"

text \<open>
  The refusal that the removal of an entry meets, if it meets one. The root of the
  filesystem is never removed.
\<close>

definition refusal :: "string \<times> stats \<Rightarrow> fs_error option" where
  "refusal e =
     (if fst e = ''/'' then Some (node_error ''EBUSY'' ''resource busy or locked'' ''rmdir'' ''/'')
      else remove_error (snd e))"

text \<open>The entries at or below \<open>p\<close> whose removal is refused.\<close>

definition refused_under :: "fs \<Rightarrow> string \<Rightarrow> (string \<times> stats) list" where
  "refused_under disk p = filter (\<lambda>e. is_under p (fst e) \<and> refusal e \<noteq> None) disk"

text \<open>
  \<^verbatim>\<open>fs.remove(p)\<close> of fs-extra removes a file, or a directory with everything below it,
  and does nothing when the path does not exist. It asks the system to remove a
  directory as it stands, and goes on to the entries of the directory only when the
  system lets it (and the directory is not empty) or refuses with \<^verbatim>\<open>EPERM\<close>; after the
  entries it asks for the directory again. Any other refusal ends the removal of that
  directory at once, with everything in it left.

  \<open>reached disk p q\<close>: while \<open>p\<close> is removed, the removal comes to \<open>q\<close>, through every
  directory from \<open>p\<close> down to the one that holds \<open>q\<close>. \<open>blocked disk p q\<close>: \<open>q\<close> stays
  while \<open>p\<close> is removed, because the removal does not come to it, or because it or
  something below it is refused.
\<close>

definition descends :: "string \<times> stats \<Rightarrow> bool" where
  "descends e = (case refusal e of None \<Rightarrow> True | Some err \<Rightarrow> fst err = ''EPERM'')"

definition reached :: "fs \<Rightarrow> string \<Rightarrow> string \<Rightarrow> bool" where
  "reached disk p q =
     list_all (\<lambda>a. if is_under p (fst a) \<and> is_under (fst a) q \<and> fst a \<noteq> q then descends a else True)
       disk"

definition blocked :: "fs \<Rightarrow> string \<Rightarrow> string \<Rightarrow> bool" where
  "blocked disk p q =
     (if reached disk p q then list_ex (\<lambda>r. is_under q (fst r)) (refused_under disk p)
      else True)"

text \<open>
  The first component of the result is the error with which the call rejects, \<open>None\<close>
  when it resolves: the refusal of the first entry, in the order of enumeration, that
  the removal comes to and that is refused. The second is the filesystem afterwards.
\<close>

definition fs_remove :: "fs \<Rightarrow> string \<Rightarrow> fs_error option \<times> fs" where
  "fs_remove disk p =
     (case filter (\<lambda>e. reached disk p (fst e)) (refused_under disk p) of
        [] \<Rightarrow> None
      | e # es \<Rightarrow> refusal e,
      filter (\<lambda>e. if is_under p (fst e) then blocked disk p (fst e) else True) disk)"

text \<open>\<^verbatim>\<open>fs.unlink(p)\<close> removes the one entry.\<close>

definition fs_unlink :: "fs \<Rightarrow> string \<Rightarrow> fs" where
  "fs_unlink disk p = filter (\<lambda>(q, st). q \<noteq> p) disk"

text \<open>Creating or overwriting the file at \<open>p\<close>.\<close>

fun fs_put :: "fs \<Rightarrow> string \<Rightarrow> stats \<Rightarrow> fs" where
  "fs_put [] p st = [(p, st)]"
| "fs_put ((q, old) # rest) p st =
     (if q = p then (p, st) # rest else (q, old) # fs_put rest p st)"

subsection \<open>Requests, responses and console output\<close>

text \<open>
  One file part of a multipart body, with what the environment adds while it is stored:
  \<open>now\<close> is what \<^verbatim>\<open>Date.now()\<close> returns when the part is named, \<open>written\<close> the
  modification time the written file gets.
\<close>

record part =
  fieldname :: string
  originalname :: string
  bytes :: nat
  now :: nat
  written :: rat

text \<open>
  The routes of the application; a \<^verbatim>\<open>:filename\<close> parameter is the decoded path segment.
  The public assets under \<^verbatim>\<open>/static\<close> (line 104), registered before every other
  middleware, are not modelled.
\<close>

datatype route =
    GET_index
  | POST_upload "part list"
  | GET_info string
  | GET_delete string
  | POST_delete string
  | GET_files string

text \<open>
  What the router makes of the path of a request: the route with its decoded parameter,
  or, when the percent-encoding of the \<^verbatim>\<open>:filename\<close> segment is malformed (\<^verbatim>\<open>%E0%A4%A\<close>), the
  error that Express raises in place of calling the middleware of the route, given by
  its message.
\<close>

datatype routing = Undecodable string | Routed route

text \<open>
  A request. \<open>body_error\<close> is what \<^verbatim>\<open>express.urlencoded\<close> and \<^verbatim>\<open>express.json\<close> (lines 105 and
  106) make of its body: \<open>None\<close> when they call \<^verbatim>\<open>next()\<close> (there is no body, it is not of
  their content types, or it parses), and the message of the error that they hand to
  \<^verbatim>\<open>next\<close> otherwise (a body \<^verbatim>\<open>{\<close> of type \<^verbatim>\<open>application/json\<close>, say). \<open>credentials\<close> is what
  \<^verbatim>\<open>basicAuth(req)\<close> returns.
\<close>

record request =
  body_error :: "string option"
  credentials :: "(string \<times> string) option"
  route :: routing

text \<open>
  Of \<^verbatim>\<open>fileInfo\<close> (lines 185 to 194) the model keeps what is read from the filesystem: the
  size in bytes and the time as a number, where the handler renders them as text
  (megabytes with two decimals, the date in the locale's form). The host's type,
  architecture and name and the client's address are left out.
\<close>

record file_info =
  info_name :: string
  info_size :: nat
  info_modified :: rat
  info_absolutePath :: string

datatype body =
    Send string
  | Redirecting string
  | Render_index "string list"
  | Render_info file_info
  | Render_confirm_delete string
  | Static_files string

text \<open>
  A response: its status, the headers the application sets itself, and what is sent,
  rendered (with the data handed to the view) or served.
\<close>

record response =
  status :: nat
  headers :: "(string \<times> string) list"
  body :: body

text \<open>
  A call of \<^verbatim>\<open>console.log\<close>, \<^verbatim>\<open>console.warn\<close> or \<^verbatim>\<open>console.error\<close> is recorded by its level
  and its arguments. The access log that morgan writes for every request (lines 117 to
  131) is not part of it.
\<close>

datatype level = LOG | WARN | ERROR

type_synonym console = "(level \<times> string list) list"

record outcome =
  resp :: response
  disk_after :: fs
  logged :: console

text \<open>Lines 109 to 114: the headers every response of the routes below carries.\<close>

definition security_headers :: "(string \<times> string) list" where
  "security_headers = [(''Cache-Control'', ''no-store''), (''X-Content-Type-Options'', ''nosniff'')]"

definition send :: "nat \<Rightarrow> string \<Rightarrow> response" where
  "send code text = \<lparr>status = code, headers = security_headers, body = Send text\<rparr>"

definition render :: "body \<Rightarrow> response" where
  "render view = \<lparr>status = 200, headers = security_headers, body = view\<rparr>"

text \<open>
  \<^verbatim>\<open>res.redirect(url)\<close>: status 302, a \<^verbatim>\<open>Location\<close> header, and a short body that names the
  target.
\<close>

definition redirect :: "string \<Rightarrow> response" where
  "redirect url =
     \<lparr>status = 302, headers = security_headers @ [(''Location'', url)],
      body = Redirecting url\<rparr>"

subsection \<open>The authentication middleware (lines 55 to 62)\<close>

definition access_denied :: response where
  "access_denied =
     \<lparr>status = 401,
      headers = security_headers @ [(''WWW-Authenticate'', ''Basic realm=\"uplite\"'')],
      body = Send ''Access Denied''\<rparr>"

text \<open>\<open>None\<close> stands for the call of \<^verbatim>\<open>next()\<close>.\<close>

definition auth :: "settings \<Rightarrow> (string \<times> string) option \<Rightarrow> response option" where
  "auth cfg creds =
     (case creds of
        None \<Rightarrow> Some access_denied
      | Some (name, pass) \<Rightarrow>
          if strict_neq name (username cfg) \<or> strict_neq pass (password cfg)
          then Some access_denied else None)"

subsection \<open>The upload pipeline (lines 65 to 98 and 163 to 174)\<close>

text \<open>Lines 69 to 75: the name under which the disk storage writes a part.\<close>

definition cleanFileName :: "string \<Rightarrow> string" where
  "cleanFileName original = replace_ws_runs (replace_unsafe original)"

definition storage_filename :: "nat \<Rightarrow> string \<Rightarrow> string" where
  "storage_filename timestamp original =
     number_to_string timestamp @ ''-'' @ cleanFileName original"

text \<open>
  Modelled from the spec: multer and busboy, which parse a multipart body, enforce the
  limits that line 80 and line 163 hand them, and call the file filter and the storage,
  are libraries and not among the sources. What is modelled of them (\<open>upload_error\<close>,
  \<open>message\<close>, \<open>limit_reached\<close>, \<open>handleFile\<close>, \<open>remove_uploaded\<close>, \<open>multer_parts\<close>) is
  the pipeline of the specification (up to \<open>maxFiles\<close> file parts, each checked against
  the allow-list and the size limit, a violation caught instead of a full write) with
  what the libraries add to it: the two limit errors and their messages, the size at
  which the limit is reached, and the removal of the files of a failed request.

  What reaches \<^verbatim>\<open>next\<close> as an error: multer's two limit errors, with the messages multer
  gives them, or an \<^verbatim>\<open>Error\<close> with a message of its own.
\<close>

datatype upload_error = LIMIT_FILE_SIZE | LIMIT_UNEXPECTED_FILE | Error string

fun message :: "upload_error \<Rightarrow> string" where
  "message LIMIT_FILE_SIZE = ''File too large''"
| "message LIMIT_UNEXPECTED_FILE = ''Unexpected field''"
| "message (Error text) = text"

text \<open>Line 89: the extension of the original name, in lower case and without its dot.\<close>

definition fileExtension :: "string \<Rightarrow> string" where
  "fileExtension original = remove_first_dot (toLowerCase (path_extname original))"

text \<open>Lines 81 to 97: \<open>None\<close> stands for \<^verbatim>\<open>cb(null, true)\<close>.\<close>

definition fileFilter :: "settings \<Rightarrow> string \<Rightarrow> console \<times> upload_error option" where
  "fileFilter cfg original =
     (if length (allowedExtensions cfg) = 0 then
        ([(LOG, [''Processing file:'', original]), (LOG, [''File accepted (no restrictions).''])],
         None)
      else
        if fileExtension original \<in> set (allowedExtensions cfg) then
          ([(LOG, [''Processing file:'', original]), (LOG, [''File accepted:'', original])],
           None)
        else
          ([(LOG, [''Processing file:'', original]),
            (ERROR, [''File rejected due to invalid extension:'', original])],
           Some (Error (''Invalid file type. Allowed extensions are: ''
                        @ join_with '', '' (allowedExtensions cfg)))))"

text \<open>
  Modelled from the spec: the size limit, which busboy enforces. The stream of a part
  stops when the bytes read of it reach the limit \<^verbatim>\<open>fileSize\<close>, and busboy reports the
  limit then: a part of exactly \<open>maxSize\<close> bytes is refused like a longer one, a part
  without content never.
\<close>

definition limit_reached :: "settings \<Rightarrow> part \<Rightarrow> bool" where
  "limit_reached cfg p = (0 < bytes p \<and> maxSize cfg \<le> bytes p)"

text \<open>
  Modelled from the spec: the disk storage of multer. It writes the part to
  \<^verbatim>\<open>path.join(destination, filename)\<close>, with the destination of line 67 and the name of
  lines 69 to 75; the write fails when the destination is not an existing directory, or
  when the path is one. No more than \<open>maxSize\<close> bytes are written, the stream stopping
  there.
\<close>

definition handleFile :: "settings \<Rightarrow> fs \<Rightarrow> part \<Rightarrow> upload_error + (string \<times> fs)" where
  "handleFile cfg disk p =
     (let finalPath = path_join (uploadDir cfg) (storage_filename (now p) (originalname p))
      in if \<not> is_directory disk (uploadDir cfg) then
           Inl (Error (''ENOENT: no such file or directory, open '' @ quoted finalPath))
         else if is_directory disk finalPath then
           Inl (Error (''EISDIR: illegal operation on a directory, open '' @ quoted finalPath))
         else
           Inr (finalPath,
                fs_put disk finalPath
                  \<lparr>kind = RegularFile, size_bytes = min (bytes p) (maxSize cfg),
                   mtimeMs = written p, remove_error = None\<rparr>))"

text \<open>
  Modelled from the spec: the middleware that multer makes of
  \<^verbatim>\<open>upload.array("file", maxFiles)\<close> with the limit \<^verbatim>\<open>fileSize: maxSize\<close>, part by part in
  the order of the body. A part without a file name is no file. A file in another field,
  or one more than \<open>maxFiles\<close>, is an unexpected file; then the file filter decides; then
  the part is written, and a part that reaches the size limit is a size error. The first
  error is the one that multer hands on, after it has removed every file the request
  has written, the truncated one included. \<open>filesLeft\<close> counts down from \<open>maxFiles\<close>,
  \<open>files\<close> becomes \<^verbatim>\<open>req.files\<close>, \<open>uploaded\<close> holds the paths written.

  The lines that the file filter writes to the console are part of its own result and
  are not taken into the outcome of an upload: for which parts the filter is called is
  multer's matter, and it can still be called for parts that follow the failing one.
\<close>

datatype multer_result =
    Failed upload_error fs
  | Parsed "string list" fs

definition remove_uploaded :: "fs \<Rightarrow> string list \<Rightarrow> fs" where
  "remove_uploaded disk uploaded = foldl fs_unlink disk uploaded"

fun multer_parts ::
  "settings \<Rightarrow> nat \<Rightarrow> string list \<Rightarrow> string list \<Rightarrow> fs \<Rightarrow> part list \<Rightarrow> multer_result"
where
  "multer_parts cfg filesLeft files uploaded disk [] = Parsed files disk"
| "multer_parts cfg filesLeft files uploaded disk (p # ps) =
     (if originalname p = [] then multer_parts cfg filesLeft files uploaded disk ps
      else if fieldname p \<noteq> ''file'' then
        Failed LIMIT_UNEXPECTED_FILE (remove_uploaded disk uploaded)
      else if filesLeft = 0 then
        Failed LIMIT_UNEXPECTED_FILE (remove_uploaded disk uploaded)
      else
        (case snd (fileFilter cfg (originalname p)) of
           Some err \<Rightarrow> Failed err (remove_uploaded disk uploaded)
         | None \<Rightarrow>
             (case handleFile cfg disk p of
                Inl err \<Rightarrow> Failed err (remove_uploaded disk uploaded)
              | Inr (finalPath, disk') \<Rightarrow>
                  if limit_reached cfg p then
                    Failed LIMIT_FILE_SIZE (remove_uploaded disk' (uploaded @ [finalPath]))
                  else
                    multer_parts cfg (filesLeft - 1) (files @ [originalname p])
                      (uploaded @ [finalPath]) disk' ps)))"

definition upload_array :: "settings \<Rightarrow> part list \<Rightarrow> fs \<Rightarrow> multer_result" where
  "upload_array cfg parts disk = multer_parts cfg (maxFiles cfg) [] [] disk parts"

text \<open>
  Lines 238 to 241: the global error handler, which every error handed to \<^verbatim>\<open>next\<close>
  reaches. \<open>set_headers\<close> are the headers set on the response when the error arises.
\<close>

definition global_error_handler ::
  "(string \<times> string) list \<Rightarrow> upload_error \<Rightarrow> fs \<Rightarrow> outcome"
where
  "global_error_handler set_headers err disk =
     \<lparr>resp = \<lparr>status = 500, headers = set_headers,
              body = Send (if message err = [] then ''An unexpected error occurred.''
                           else message err)\<rparr>,
      disk_after = disk,
      logged = [(ERROR, [''Unhandled Error:'', message err])]\<rparr>"

text \<open>Lines 163 to 174: the route, \<open>files\<close> holding the original names of \<^verbatim>\<open>req.files\<close>.\<close>

definition upload_route :: "settings \<Rightarrow> part list \<Rightarrow> fs \<Rightarrow> outcome" where
  "upload_route cfg parts disk =
     (case upload_array cfg parts disk of
        Failed err disk' \<Rightarrow> global_error_handler security_headers err disk'
      | Parsed files disk' \<Rightarrow>
          if length files = 0 then
            \<lparr>resp = send 400 ''No files were uploaded.'', disk_after = disk', logged = []\<rparr>
          else
            \<lparr>resp = redirect ''/'', disk_after = disk',
             logged = [(LOG, ''Uploaded files:'' # files)]\<rparr>)"

subsection \<open>The listing (lines 134 to 161)\<close>

text \<open>
  \<^verbatim>\<open>xs.sort(cmp)\<close> is a stable sort: an element goes before the first element of the sorted
  rest that the comparison does not put before it.
\<close>

fun sort_insert :: "('a \<Rightarrow> 'a \<Rightarrow> rat) \<Rightarrow> 'a \<Rightarrow> 'a list \<Rightarrow> 'a list" where
  "sort_insert cmp x [] = [x]"
| "sort_insert cmp x (y # ys) =
     (if cmp x y \<le> 0 then x # y # ys else y # sort_insert cmp x ys)"

definition array_sort :: "('a \<Rightarrow> 'a \<Rightarrow> rat) \<Rightarrow> 'a list \<Rightarrow> 'a list" where
  "array_sort cmp xs = foldr (sort_insert cmp) xs []"

text \<open>\<^verbatim>\<open>Promise.all\<close>: the first rejection, or every result.\<close>

fun promise_all :: "('e + 'a) list \<Rightarrow> 'e + 'a list" where
  "promise_all [] = Inr []"
| "promise_all (Inl e # rs) = Inl e"
| "promise_all (Inr v # rs) = (case promise_all rs of Inl e \<Rightarrow> Inl e | Inr vs \<Rightarrow> Inr (v # vs))"

text \<open>
  Lines 138 to 148, for one enumerated name. The existence check and the \<^verbatim>\<open>stat\<close> are two
  awaited calls, so each reads the filesystem as it is when it runs: \<open>at_check\<close> and
  \<open>at_stat\<close>. A \<^verbatim>\<open>stat\<close> of a path that is gone rejects.
\<close>

definition file_detail :: "settings \<Rightarrow> fs \<Rightarrow> fs \<Rightarrow> string \<Rightarrow> string + (string \<times> rat) option" where
  "file_detail cfg at_check at_stat file =
     (let filePath = path_join (uploadDir cfg) file
      in if \<not> pathExists at_check filePath then Inr None
         else (case fs_stat at_stat filePath of
                 None \<Rightarrow> Inl (''ENOENT: no such file or directory, stat '' @ quoted filePath)
               | Some stats \<Rightarrow> Inr (Some (file, mtimeMs stats))))"

definition newest_first :: "string \<times> rat \<Rightarrow> string \<times> rat \<Rightarrow> rat" where
  "newest_first a b = snd b - snd a"

definition sortedFiles :: "(string \<times> rat) option list \<Rightarrow> string list" where
  "sortedFiles fileDetails =
     map fst (array_sort newest_first (map the (filter (\<lambda>d. d \<noteq> None) fileDetails)))"

text \<open>
  The handler, over the filesystem as it is at the enumeration, at the existence checks
  and at the \<^verbatim>\<open>stat\<close> calls. It writes nothing.
\<close>

definition list_files :: "settings \<Rightarrow> fs \<Rightarrow> fs \<Rightarrow> fs \<Rightarrow> response \<times> console" where
  "list_files cfg at_readdir at_check at_stat =
     (case readdir at_readdir (uploadDir cfg) of
        None \<Rightarrow>
          (send 500 ''Internal Server Error'',
           [(ERROR, [''Error reading files:'',
                     ''ENOENT: no such file or directory, scandir '' @ quoted (uploadDir cfg)])])
      | Some files \<Rightarrow>
          (case promise_all (map (file_detail cfg at_check at_stat) files) of
             Inl err \<Rightarrow>
               (send 500 ''Internal Server Error'', [(ERROR, [''Error reading files:'', err])])
           | Inr fileDetails \<Rightarrow> (render (Render_index (sortedFiles fileDetails)), [])))"

definition index_route :: "settings \<Rightarrow> fs \<Rightarrow> outcome" where
  "index_route cfg disk =
     (case list_files cfg disk disk disk of
        (r, out) \<Rightarrow> \<lparr>resp = r, disk_after = disk, logged = out\<rparr>)"

subsection \<open>File info and delete (lines 176 to 233)\<close>

definition info_route :: "settings \<Rightarrow> string \<Rightarrow> fs \<Rightarrow> outcome" where
  "info_route cfg filename disk =
     (let fileName = path_basename filename;
          filePath = path_join (uploadDir cfg) fileName
      in if \<not> pathExists disk filePath then
           \<lparr>resp = send 404 ''File not found.'', disk_after = disk, logged = []\<rparr>
         else
           (case fs_stat disk filePath of
              None \<Rightarrow>
                \<lparr>resp = send 500 ''Internal Server Error'', disk_after = disk,
                 logged = [(ERROR, [''Error getting file info:'',
                                    ''ENOENT: no such file or directory, stat '' @ quoted filePath])]\<rparr>
            | Some stats \<Rightarrow>
                \<lparr>resp = render (Render_info
                          \<lparr>info_name = fileName, info_size = size_bytes stats,
                           info_modified = mtimeMs stats, info_absolutePath = filePath\<rparr>),
                 disk_after = disk, logged = []\<rparr>))"

definition delete_page_route :: "settings \<Rightarrow> string \<Rightarrow> fs \<Rightarrow> outcome" where
  "delete_page_route cfg filename disk =
     (let fileName = path_basename filename;
          filePath = path_join (uploadDir cfg) fileName
      in if \<not> pathExists disk filePath then
           \<lparr>resp = send 404 ''File not found.'', disk_after = disk,
            logged = [(WARN, [''Attempted to access deletion page for non-existent file: ''
                              @ fileName])]\<rparr>
         else
           \<lparr>resp = render (Render_confirm_delete fileName), disk_after = disk, logged = []\<rparr>)"

text \<open>
  Lines 217 to 233. The existence check and the removal are two awaited calls: \<open>at_check\<close>
  and \<open>at_remove\<close> are the filesystem as it is when each of them runs. When \<^verbatim>\<open>fs.remove\<close>
  rejects, the \<^verbatim>\<open>catch\<close> of lines 229 to 232 answers.
\<close>

definition delete_file :: "settings \<Rightarrow> string \<Rightarrow> fs \<Rightarrow> fs \<Rightarrow> outcome" where
  "delete_file cfg filename at_check at_remove =
     (let fileName = path_basename filename;
          filePath = path_join (uploadDir cfg) fileName
      in if pathExists at_check filePath then
           (case fs_remove at_remove filePath of
              (None, disk') \<Rightarrow>
                \<lparr>resp = redirect ''/'', disk_after = disk',
                 logged = [(LOG, [''Deleted file: '' @ fileName])]\<rparr>
            | (Some err, disk') \<Rightarrow>
                \<lparr>resp = send 500 ''Internal Server Error'', disk_after = disk',
                 logged = [(ERROR, [''Error deleting file:'', snd err])]\<rparr>)
         else
           \<lparr>resp = redirect ''/'', disk_after = at_remove,
            logged = [(WARN, [''Attempted to delete non-existent file: '' @ fileName])]\<rparr>)"

definition delete_route :: "settings \<Rightarrow> string \<Rightarrow> fs \<Rightarrow> outcome" where
  "delete_route cfg filename disk = delete_file cfg filename disk disk"

subsection \<open>The browsable index (line 235) and the application\<close>

text \<open>
  \<^verbatim>\<open>express.static\<close> and \<^verbatim>\<open>serveIndex\<close> answer from the directory tree and write nothing;
  of their answer the model keeps the path asked for and whether it exists.
\<close>

definition files_route :: "settings \<Rightarrow> string \<Rightarrow> fs \<Rightarrow> outcome" where
  "files_route cfg sub disk =
     \<lparr>resp = \<lparr>status = (if pathExists disk (path_join (uploadDir cfg) sub) then 200 else 404),
              headers = security_headers, body = Static_files sub\<rparr>,
      disk_after = disk, logged = []\<rparr>"

text \<open>
  The application, in the order in which its middleware is registered. The body parsers
  of lines 105 and 106 come first; an error of theirs goes to the global error handler
  before the headers of lines 109 to 114 are set. Then the router decodes the parameter
  of the route; an error of that goes to the global error handler as well. Only then
  does the route run, \<open>auth\<close> first; a denied request goes no further.
\<close>

definition handle :: "settings \<Rightarrow> request \<Rightarrow> fs \<Rightarrow> outcome" where
  "handle cfg req disk =
     (case body_error req of
        Some text \<Rightarrow> global_error_handler [] (Error text) disk
      | None \<Rightarrow>
          (case route req of
             Undecodable text \<Rightarrow> global_error_handler security_headers (Error text) disk
           | Routed r \<Rightarrow>
               (case auth cfg (credentials req) of
                  Some denied \<Rightarrow> \<lparr>resp = denied, disk_after = disk, logged = []\<rparr>
                | None \<Rightarrow>
                    (case r of
                       GET_index \<Rightarrow> index_route cfg disk
                     | POST_upload parts \<Rightarrow> upload_route cfg parts disk
                     | GET_info filename \<Rightarrow> info_route cfg filename disk
                     | GET_delete filename \<Rightarrow> delete_page_route cfg filename disk
                     | POST_delete filename \<Rightarrow> delete_route cfg filename disk
                     | GET_files sub \<Rightarrow> files_route cfg sub disk))))"

subsection \<open>Notions the properties are stated with\<close>

text \<open>
  The credentials are exactly the configured pair: the user name and the password are the
  strings that were configured.
\<close>

definition exact_match :: "settings \<Rightarrow> (string \<times> string) option \<Rightarrow> bool" where
  "exact_match cfg creds =
     (case creds of
        None \<Rightarrow> False
      | Some (name, pass) \<Rightarrow> username cfg = AString name \<and> password cfg = AString pass)"

text \<open>
  A request reaches the middleware of its route: the body parsers call \<^verbatim>\<open>next()\<close> and the
  parameter of the route decodes.
\<close>

definition reaches_route :: "request \<Rightarrow> bool" where
  "reaches_route req =
     (case route req of Undecodable text \<Rightarrow> False | Routed r \<Rightarrow> body_error req = None)"

text \<open>
  The sanitization as the specification words it: every run of whitespace becomes a
  single underscore, and every other character outside \<^verbatim>\<open>[A-Za-z0-9_.-]\<close> becomes an
  underscore.
\<close>

definition sanitized_as_specified :: "string \<Rightarrow> string" where
  "sanitized_as_specified original = replace_unsafe (replace_ws_runs original)"

text \<open>A part that carries a file: its file name is not empty.\<close>

definition named :: "part \<Rightarrow> bool" where
  "named p = (originalname p \<noteq> [])"

text \<open>The message of the error with which the file filter rejects a part.\<close>

definition invalid_file_type :: "settings \<Rightarrow> string" where
  "invalid_file_type cfg =
     ''Invalid file type. Allowed extensions are: '' @ join_with '', '' (allowedExtensions cfg)"

text \<open>The path at which the disk storage writes a part.\<close>

definition storage_path :: "settings \<Rightarrow> part \<Rightarrow> string" where
  "storage_path cfg p = path_join (uploadDir cfg) (storage_filename (now p) (originalname p))"

fun result_disk :: "multer_result \<Rightarrow> fs" where
  "result_disk (Failed err disk) = disk"
| "result_disk (Parsed files disk) = disk"

text \<open>
  A segment that \<^verbatim>\<open>normalizeString\<close> keeps as it is, and the segments of a directory path.
\<close>

definition plain_segment :: "string \<Rightarrow> bool" where
  "plain_segment s = (s \<noteq> [] \<and> s \<noteq> ''.'' \<and> s \<noteq> ''..'' \<and> CHR ''/'' \<notin> set s)"

definition segments_of :: "string \<Rightarrow> string list" where
  "segments_of d = normalize_segments False [] (split_on (CHR ''/'') d)"

text \<open>
  A name without a path separator and without control characters (the code units 0 to 31
  and 127 to 159); the names of the entries directly in the upload directory; and the
  filesystem after a sequence of requests.
\<close>

definition is_control :: "char \<Rightarrow> bool" where
  "is_control c = (of_char c < (32::nat) \<or> code_in 127 159 c)"

definition clean_name :: "string \<Rightarrow> bool" where
  "clean_name name = (CHR ''/'' \<notin> set name \<and> list_all (\<lambda>c. \<not> is_control c) name)"

definition stored_names :: "settings \<Rightarrow> fs \<Rightarrow> string list" where
  "stored_names cfg disk = List.map_filter (\<lambda>(p, st). entry_name (uploadDir cfg) p) disk"

definition names_clean :: "settings \<Rightarrow> fs \<Rightarrow> bool" where
  "names_clean cfg disk = list_all clean_name (stored_names cfg disk)"

definition serve :: "settings \<Rightarrow> fs \<Rightarrow> request list \<Rightarrow> fs" where
  "serve cfg disk reqs = foldl (\<lambda>d req. disk_after (handle cfg req d)) disk reqs"

text \<open>The order of the listing: the first of two entries is not older than the second.\<close>

definition newer_or_equal :: "string \<times> rat \<Rightarrow> string \<times> rat \<Rightarrow> bool" where
  "newer_or_equal a b = (snd b \<le> snd a)"

text \<open>A configuration and a directory tree on which the properties are exercised.\<close>

definition example_settings :: settings where
  "example_settings =
     \<lparr>username = AString ''admin'', password = AString ''s3cret'', uploadDir = ''/srv/up'',
      maxFiles = 2, maxSize = 100, allowedExtensions = [''jpg'', ''png'']\<rparr>"

definition dir_stats :: stats where
  "dir_stats = \<lparr>kind = Directory, size_bytes = 0, mtimeMs = 1, remove_error = None\<rparr>"

definition file_stats :: "rat \<Rightarrow> stats" where
  "file_stats t = \<lparr>kind = RegularFile, size_bytes = 3, mtimeMs = t, remove_error = None\<rparr>"

definition example_disk :: fs where
  "example_disk =
     [(''/'', dir_stats), (''/srv'', dir_stats), (''/srv/up'', dir_stats),
      (''/srv/up/1-a.txt'', file_stats 5), (''/srv/up/2-b.txt'', file_stats 7),
      (''/srv/up/3-c.txt'', file_stats 5), (''/srv/other'', file_stats 9)]"

definition example_part :: "string \<Rightarrow> nat \<Rightarrow> part" where
  "example_part original n =
     \<lparr>fieldname = ''file'', originalname = original, bytes = n, now = 1700000000000,
      written = 1700000000001\<rparr>"

text \<open>
  The same tree where the process owns the upload directory and its files, and nothing
  else: the system refuses to remove \<^verbatim>\<open>/srv/up\<close> (for that the process would have to write
  to \<^verbatim>\<open>/srv\<close>), \<^verbatim>\<open>/srv/other\<close> and \<^verbatim>\<open>/srv\<close>. The tree where the upload directory is
  read-only, so that the system refuses to remove the files in it. And the tree where
  one stored file, \<^verbatim>\<open>2-b.txt\<close>, is immutable.
\<close>

definition no_access :: "string \<Rightarrow> string \<Rightarrow> stats \<Rightarrow> stats" where
  "no_access syscall p st =
     st\<lparr>remove_error := Some (node_error ''EACCES'' ''permission denied'' syscall p)\<rparr>"

definition owned_disk :: fs where
  "owned_disk =
     [(''/'', dir_stats), (''/srv'', no_access ''rmdir'' ''/srv'' dir_stats),
      (''/srv/up'', no_access ''rmdir'' ''/srv/up'' dir_stats),
      (''/srv/up/1-a.txt'', file_stats 5), (''/srv/up/2-b.txt'', file_stats 7),
      (''/srv/up/3-c.txt'', file_stats 5),
      (''/srv/other'', no_access ''unlink'' ''/srv/other'' (file_stats 9))]"

definition read_only_disk :: fs where
  "read_only_disk =
     [(''/'', dir_stats), (''/srv'', dir_stats), (''/srv/up'', dir_stats),
      (''/srv/up/1-a.txt'', no_access ''unlink'' ''/srv/up/1-a.txt'' (file_stats 5)),
      (''/srv/up/2-b.txt'', no_access ''unlink'' ''/srv/up/2-b.txt'' (file_stats 7)),
      (''/srv/up/3-c.txt'', no_access ''unlink'' ''/srv/up/3-c.txt'' (file_stats 5)),
      (''/srv/other'', file_stats 9)]"

definition pinned_disk :: fs where
  "pinned_disk =
     [(''/'', dir_stats), (''/srv'', dir_stats), (''/srv/up'', dir_stats),
      (''/srv/up/1-a.txt'', file_stats 5),
      (''/srv/up/2-b.txt'',
         (file_stats 7)\<lparr>remove_error := Some (node_error ''EPERM'' ''operation not permitted''
                                                ''unlink'' ''/srv/up/2-b.txt'')\<rparr>),
      (''/srv/up/3-c.txt'', file_stats 5), (''/srv/other'', file_stats 9)]"

text \<open>A request with the configured credentials, and one without credentials.\<close>

definition example_request :: "route \<Rightarrow> request" where
  "example_request r =
     \<lparr>body_error = None, credentials = Some (''admin'', ''s3cret''), route = Routed r\<rparr>"

definition anonymous_request :: "string option \<Rightarrow> routing \<Rightarrow> request" where
  "anonymous_request parsed r = \<lparr>body_error = parsed, credentials = None, route = r\<rparr>"

section \<open>Properties\<close>

subsection \<open>Authentication\<close>

lemma strict_neq_iff: "strict_neq s v \<longleftrightarrow> v \<noteq> AString s"
  by (cases v) auto

lemma auth_None_iff: "auth cfg creds = None \<longleftrightarrow> exact_match cfg creds"
  by (auto simp: auth_def exact_match_def strict_neq_iff split: option.splits)

lemma auth_denied: "auth cfg creds \<noteq> None \<Longrightarrow> auth cfg creds = Some access_denied"
  by (auto simp: auth_def split: option.splits if_splits)

lemma handle_route:
  "exact_match cfg (credentials req) \<Longrightarrow> body_error req = None \<Longrightarrow> route req = Routed r \<Longrightarrow>
     handle cfg req disk =
       (case r of
          GET_index \<Rightarrow> index_route cfg disk
        | POST_upload parts \<Rightarrow> upload_route cfg parts disk
        | GET_info filename \<Rightarrow> info_route cfg filename disk
        | GET_delete filename \<Rightarrow> delete_page_route cfg filename disk
        | POST_delete filename \<Rightarrow> delete_route cfg filename disk
        | GET_files sub \<Rightarrow> files_route cfg sub disk)"
  by (simp add: handle_def auth_None_iff [THEN iffD2])

text \<open>
  Claim C2, as the code has it. A request whose credentials are absent, or are not
  exactly the configured user name and password, leaves the filesystem as it was. When
  it reaches the middleware of its route (the body parsers of lines 105 and 106 call
  \<^verbatim>\<open>next()\<close> and the parameter of the route decodes), it is answered with status 401 and
  the \<^verbatim>\<open>WWW-Authenticate\<close> challenge, and nothing else runs (nothing is logged). When it
  does not, the global error handler answers it with status 500, and without the
  challenge.
\<close>

theorem unauthorized_request_is_denied:
  "\<not> exact_match cfg (credentials req) \<Longrightarrow>
     disk_after (handle cfg req disk) = disk
     \<and> (reaches_route req \<longrightarrow>
           status (resp (handle cfg req disk)) = 401
           \<and> (''WWW-Authenticate'', ''Basic realm=\"uplite\"'')
               \<in> set (headers (resp (handle cfg req disk)))
           \<and> logged (handle cfg req disk) = [])
     \<and> (\<not> reaches_route req \<longrightarrow>
           status (resp (handle cfg req disk)) = 500
           \<and> ''WWW-Authenticate'' \<notin> set (map fst (headers (resp (handle cfg req disk)))))"
proof -
  assume "\<not> exact_match cfg (credentials req)"
  then have denied: "auth cfg (credentials req) = Some access_denied"
    using auth_None_iff auth_denied by blast
  show ?thesis
  proof (cases "body_error req")
    case (Some msg)
    then show ?thesis
      by (simp add: handle_def reaches_route_def global_error_handler_def
          split: routing.splits)
  next
    case None
    show ?thesis
    proof (cases "route req")
      case (Undecodable msg)
      then show ?thesis
        using None
        by (simp add: handle_def reaches_route_def global_error_handler_def
            security_headers_def)
    next
      case (Routed r)
      then show ?thesis
        using None denied by (simp add: handle_def reaches_route_def access_denied_def)
    qed
  qed
qed

text \<open>
  Claim C2, as stated, fails: a request without credentials whose body is the one
  character \<^verbatim>\<open>{\<close>, of type \<^verbatim>\<open>application/json\<close>, is answered by the global error handler,
  with status 500 and no header at all; and so is a request without credentials for
  \<^verbatim>\<open>/info/%E0%A4%A\<close>, whose parameter does not decode.
\<close>

theorem unauthorized_request_status_counterexample:
  "\<not> exact_match example_settings
       (credentials (anonymous_request (Some ''Unexpected end of JSON input'') (Routed GET_index)))
   \<and> resp (handle example_settings
        (anonymous_request (Some ''Unexpected end of JSON input'') (Routed GET_index))
        example_disk)
       = \<lparr>status = 500, headers = [], body = Send ''Unexpected end of JSON input''\<rparr>
   \<and> status (resp (handle example_settings
        (anonymous_request None (Undecodable (''Failed to decode param '' @ quoted ''%E0%A4%A'')))
        example_disk)) = 500
   \<and> ''WWW-Authenticate'' \<notin> set (map fst (headers (resp (handle example_settings
        (anonymous_request None (Undecodable (''Failed to decode param '' @ quoted ''%E0%A4%A'')))
        example_disk))))"
  by code_simp

text \<open>
  A wrong password on the confirming delete request of an existing file: 401, and the
  file is still there. The same request with a body that does not parse: 500, and the
  file is still there.
\<close>

theorem unauthorized_request_is_denied_witness:
  "\<not> exact_match example_settings (Some (''admin'', ''guess''))
   \<and> reaches_route \<lparr>body_error = None, credentials = Some (''admin'', ''guess''),
                     route = Routed (POST_delete ''1-a.txt'')\<rparr>
   \<and> status (resp (handle example_settings
        \<lparr>body_error = None, credentials = Some (''admin'', ''guess''),
         route = Routed (POST_delete ''1-a.txt'')\<rparr> example_disk)) = 401
   \<and> disk_after (handle example_settings
        \<lparr>body_error = None, credentials = Some (''admin'', ''guess''),
         route = Routed (POST_delete ''1-a.txt'')\<rparr> example_disk) = example_disk
   \<and> \<not> reaches_route \<lparr>body_error = Some ''Unexpected end of JSON input'',
                     credentials = Some (''admin'', ''guess''),
                     route = Routed (POST_delete ''1-a.txt'')\<rparr>
   \<and> status (resp (handle example_settings
        \<lparr>body_error = Some ''Unexpected end of JSON input'',
         credentials = Some (''admin'', ''guess''),
         route = Routed (POST_delete ''1-a.txt'')\<rparr> example_disk)) = 500
   \<and> disk_after (handle example_settings
        \<lparr>body_error = Some ''Unexpected end of JSON input'',
         credentials = Some (''admin'', ''guess''),
         route = Routed (POST_delete ''1-a.txt'')\<rparr> example_disk) = example_disk"
proof -
  let ?req = "\<lparr>body_error = None, credentials = Some (''admin'', ''guess''),
               route = Routed (POST_delete ''1-a.txt'')\<rparr>"
  let ?bad = "\<lparr>body_error = Some ''Unexpected end of JSON input'',
               credentials = Some (''admin'', ''guess''),
               route = Routed (POST_delete ''1-a.txt'')\<rparr>"
  have wrong: "\<not> exact_match example_settings (Some (''admin'', ''guess''))"
    by (simp add: exact_match_def example_settings_def)
  then have w1: "\<not> exact_match example_settings (credentials ?req)"
    and w2: "\<not> exact_match example_settings (credentials ?bad)" by simp_all
  have r1: "reaches_route ?req" by (simp add: reaches_route_def)
  have r2: "\<not> reaches_route ?bad" by (simp add: reaches_route_def)
  from unauthorized_request_is_denied [OF w1, of example_disk]
       unauthorized_request_is_denied [OF w2, of example_disk] wrong r1 r2
  show ?thesis by blast
qed

subsection \<open>The storage name\<close>

lemma replace_unsafe_no_space: "c \<in> set (replace_unsafe s) \<Longrightarrow> \<not> is_space c"
  by (auto simp: replace_unsafe_def is_name_char_def is_space_def code_in_def split: if_splits)

lemma replace_ws_runs_id: "\<forall>c \<in> set s. \<not> is_space c \<Longrightarrow> replace_ws_runs s = s"
  by (induction s) auto

text \<open>
  The second replacement of line 73 never finds a match: the first one has already turned
  every whitespace character into an underscore of its own.
\<close>

lemma cleanFileName_eq: "cleanFileName original = replace_unsafe original"
  unfolding cleanFileName_def
  by (rule replace_ws_runs_id) (auto dest: replace_unsafe_no_space)

text \<open>
  Claim C5. The storage name is the timestamp, a dash and the sanitized original name;
  but a run of whitespace is not collapsed to a single underscore. For the original name
  \<^verbatim>\<open>a  b.txt\<close>, with two spaces, the stored name has two underscores, where the
  sanitization as specified gives one.
\<close>

theorem whitespace_run_not_collapsed:
  "storage_filename 1700000000000 ''a  b.txt'' = ''1700000000000-a__b.txt''
   \<and> cleanFileName ''a  b.txt'' = ''a__b.txt''
   \<and> sanitized_as_specified ''a  b.txt'' = ''a_b.txt''"
  by code_simp

text \<open>Every character of a storage name is of the class \<^verbatim>\<open>[a-zA-Z0-9_\-.]\<close>.\<close>

lemma digit_is_name_char: "k < 10 \<Longrightarrow> is_name_char (''0123456789'' ! k)"
proof -
  assume "k < 10"
  then have "''0123456789'' ! k \<in> set ''0123456789''" by (intro nth_mem) simp
  moreover have "\<forall>c \<in> set ''0123456789''. is_name_char c"
    by (simp add: is_name_char_def code_in_def)
  ultimately show ?thesis by blast
qed

lemma number_to_string_chars: "c \<in> set (number_to_string n) \<Longrightarrow> is_name_char c"
proof (induction n arbitrary: c rule: number_to_string.induct)
  case (1 n)
  show ?case
  proof (cases "n < 10")
    case True
    with "1.prems" show ?thesis
      by (simp add: number_to_string.simps [of n] digit_is_name_char)
  next
    case False
    with "1.prems" "1.IH" show ?thesis
      by (auto simp: number_to_string.simps [of n] digit_is_name_char)
  qed
qed

lemma replace_unsafe_chars: "c \<in> set (replace_unsafe s) \<Longrightarrow> is_name_char c"
  by (auto simp: replace_unsafe_def is_name_char_def split: if_splits)

lemma storage_filename_chars: "c \<in> set (storage_filename t original) \<Longrightarrow> is_name_char c"
  by (auto simp: storage_filename_def cleanFileName_eq
        dest: number_to_string_chars replace_unsafe_chars)
     (simp add: is_name_char_def)

lemma name_char_not_slash: "is_name_char c \<Longrightarrow> c \<noteq> CHR ''/''"
  by (auto simp: is_name_char_def code_in_def)

lemma name_char_not_control: "is_name_char c \<Longrightarrow> \<not> is_control c"
  by (auto simp: is_name_char_def is_control_def code_in_def)

lemma storage_filename_clean: "clean_name (storage_filename t original)"
  unfolding clean_name_def list_all_iff
  using storage_filename_chars name_char_not_slash name_char_not_control by blast

lemma storage_filename_plain: "plain_segment (storage_filename t original)"
proof -
  have dash: "CHR ''-'' \<in> set (storage_filename t original)"
    by (simp add: storage_filename_def)
  then have "storage_filename t original \<noteq> []" "storage_filename t original \<noteq> ''.''"
    "storage_filename t original \<noteq> ''..''" by auto
  moreover have "CHR ''/'' \<notin> set (storage_filename t original)"
    using storage_filename_chars name_char_not_slash by blast
  ultimately show ?thesis by (simp add: plain_segment_def)
qed

subsection \<open>Paths\<close>

lemma split_on_not_Nil: "split_on c s \<noteq> []"
  by (induction s) (auto split: list.splits)

lemma split_on_no_sep: "c \<notin> set s \<Longrightarrow> split_on c s = [s]"
  by (induction s) auto

lemma split_on_append: "split_on c (xs @ c # ys) = split_on c xs @ split_on c ys"
  by (induction xs) (auto split: list.splits simp: split_on_not_Nil)

lemma split_on_pieces: "s \<in> set (split_on c xs) \<Longrightarrow> c \<notin> set s"
  by (induction xs arbitrary: s) (auto split: if_splits list.splits)

lemma join_with_snoc: "ss \<noteq> [] \<Longrightarrow> join_with sep (ss @ [s]) = join_with sep ss @ sep @ s"
  by (induction sep ss rule: join_with.induct) auto

lemma join_with_Cons_not_Nil: "s \<noteq> [] \<Longrightarrow> join_with sep (s # ss) \<noteq> []"
  by (cases ss) auto

lemma join_with_Nil_iff: "list_all plain_segment ss \<Longrightarrow> join_with sep ss = [] \<longleftrightarrow> ss = []"
  by (cases ss) (auto simp: plain_segment_def join_with_Cons_not_Nil)

lemma normalize_segments_append:
  "normalize_segments a res (xs @ ys) = normalize_segments a (normalize_segments a res xs) ys"
  by (induction xs arbitrary: res) auto

lemma list_all_butlast: "list_all P xs \<Longrightarrow> list_all P (butlast xs)"
  by (induction xs) auto

text \<open>Below the root, normalization leaves plain segments only.\<close>

lemma normalize_segments_plain:
  "list_all plain_segment res \<Longrightarrow> \<forall>s \<in> set segs. CHR ''/'' \<notin> set s
     \<Longrightarrow> list_all plain_segment (normalize_segments False res segs)"
proof (induction segs arbitrary: res)
  case Nil
  then show ?case by simp
next
  case (Cons seg segs)
  have rest: "\<forall>s \<in> set segs. CHR ''/'' \<notin> set s" using Cons.prems(2) by simp
  have seg: "CHR ''/'' \<notin> set seg" using Cons.prems(2) by simp
  show ?case
  proof (cases "seg = [] \<or> seg = ''.''")
    case True
    then show ?thesis using Cons.IH [OF Cons.prems(1) rest] by auto
  next
    case False
    show ?thesis
    proof (cases "seg = ''..''")
      case True
      then show ?thesis
        using Cons.IH [OF Cons.prems(1) rest]
          Cons.IH [OF list_all_butlast [OF Cons.prems(1)] rest]
        by auto
    next
      case other: False
      have "plain_segment seg"
        using False other seg by (simp add: plain_segment_def)
      then have "list_all plain_segment (res @ [seg])"
        using Cons.prems(1) by simp
      from Cons.IH [OF this rest] show ?thesis using False other by simp
    qed
  qed
qed

lemma segments_of_plain: "list_all plain_segment (segments_of d)"
  unfolding segments_of_def
  by (rule normalize_segments_plain) (auto dest: split_on_pieces)

text \<open>A resolved directory is the slash-separated sequence of its segments.\<close>

lemma resolved_form:
  assumes "is_resolved d"
  shows "d = CHR ''/'' # join_with ''/'' (segments_of d)"
proof -
  from assms have ne: "d \<noteq> []" and ab: "hd d = CHR ''/''" and fixed: "path_normalize d = d"
    and tr: "d = ''/'' \<or> last d \<noteq> CHR ''/''"
    by (auto simp: is_resolved_def)
  show ?thesis
  proof (cases "d = ''/''")
    case True
    then show ?thesis by (simp add: segments_of_def)
  next
    case False
    with tr have "last d \<noteq> CHR ''/''" by simp
    with fixed ne ab show ?thesis
      by (auto simp: path_normalize_def normalizeString_def segments_of_def Let_def
            split: if_splits)
  qed
qed

lemma resolved_root_iff: "is_resolved d \<Longrightarrow> segments_of d = [] \<longleftrightarrow> d = ''/''"
  using resolved_form [of d] segments_of_plain [of d]
  by (auto simp: join_with_Nil_iff) (simp add: segments_of_def)

lemma dir_prefix_resolved:
  "is_resolved d \<Longrightarrow> dir_prefix d = (if segments_of d = [] then ''/'' else d @ ''/'')"
  by (simp add: dir_prefix_def resolved_root_iff)

lemma segments_of_join:
  assumes "d \<noteq> []" "CHR ''/'' \<notin> set name"
  shows "normalize_segments False [] (split_on (CHR ''/'') (d @ CHR ''/'' # name))
         = normalize_segments False (segments_of d) [name]"
  by (simp add: split_on_append split_on_no_sep assms normalize_segments_append segments_of_def)

lemma path_join_resolved:
  assumes "is_resolved d" "name \<noteq> []" "CHR ''/'' \<notin> set name"
  shows "path_join d name
         = (let res = join_with ''/'' (normalize_segments False (segments_of d) [name])
            in if res = [] then ''/'' else CHR ''/'' # res)"
proof -
  from assms(1) have ne: "d \<noteq> []" and ab: "hd d = CHR ''/''" by (auto simp: is_resolved_def)
  have no_trailing: "last (d @ CHR ''/'' # name) \<noteq> CHR ''/''"
    using assms(2,3) by (auto dest: last_in_set)
  have absolute: "hd (d @ CHR ''/'' # name) = CHR ''/''" using ne ab by simp
  have "path_join d name = path_normalize (d @ CHR ''/'' # name)"
    using ne assms(2) by (simp add: path_join_def)
  also have "\<dots> = (let res = join_with ''/'' (normalize_segments False (segments_of d) [name])
            in if res = [] then ''/'' else CHR ''/'' # res)"
    using no_trailing absolute segments_of_join [OF ne assms(3)]
    by (simp add: path_normalize_def normalizeString_def Let_def)
  finally show ?thesis .
qed

text \<open>Joining a plain name to a resolved directory appends it.\<close>

lemma path_join_plain:
  assumes "is_resolved d" "plain_segment name"
  shows "path_join d name = dir_prefix d @ name"
proof -
  from assms(2) have n: "name \<noteq> []" "CHR ''/'' \<notin> set name" "name \<noteq> ''.''" "name \<noteq> ''..''"
    by (auto simp: plain_segment_def)
  have "path_join d name = CHR ''/'' # join_with ''/'' (segments_of d @ [name])"
    using path_join_resolved [OF assms(1) n(1,2)] n
    by (cases "segments_of d") (auto simp: Let_def join_with_snoc)
  also have "\<dots> = dir_prefix d @ name"
  proof (cases "segments_of d = []")
    case True
    then show ?thesis using assms(1) by (simp add: dir_prefix_resolved)
  next
    case False
    then show ?thesis
      using resolved_form [OF assms(1)] assms(1)
      by (simp add: dir_prefix_resolved join_with_snoc)
  qed
  finally show ?thesis .
qed

lemma path_join_dot:
  assumes "is_resolved d"
  shows "path_join d ''.'' = d"
  using path_join_resolved [OF assms, of "''.''"] resolved_form [OF assms]
    resolved_root_iff [OF assms] segments_of_plain [of d]
  by (auto simp: Let_def join_with_Nil_iff)

lemma path_join_empty:
  assumes "is_resolved d"
  shows "path_join d [] = d"
  using assms by (auto simp: path_join_def is_resolved_def)

lemma path_join_dotdot:
  assumes "is_resolved d"
  shows "path_join d ''..'' = CHR ''/'' # join_with ''/'' (butlast (segments_of d))"
proof -
  have pl: "list_all plain_segment (segments_of d)" by (rule segments_of_plain)
  have "segments_of d \<noteq> [] \<Longrightarrow> last (segments_of d) \<noteq> ''..''"
    using pl by (metis last_in_set list_all_iff plain_segment_def)
  then have "normalize_segments False (segments_of d) [''..''] = butlast (segments_of d)"
    by (cases "segments_of d = []") auto
  then show ?thesis
    using path_join_resolved [OF assms, of "''..''"] list_all_butlast [OF pl]
    by (auto simp: Let_def join_with_Nil_iff)
qed

text \<open>
  A resolved directory other than the root is an entry directly in what \<^verbatim>\<open>..\<close> joined to it
  resolves to: that path is its parent.
\<close>

lemma parent_of_resolved:
  assumes "is_resolved d" "d \<noteq> ''/''"
  shows "d = dir_prefix (path_join d ''..'') @ last (segments_of d)
         \<and> plain_segment (last (segments_of d))"
proof -
  let ?S = "segments_of d"
  have pl: "list_all plain_segment ?S" by (rule segments_of_plain)
  have ne: "?S \<noteq> []" using assms resolved_root_iff by blast
  then have S: "?S = butlast ?S @ [last ?S]" by simp
  have lastpl: "plain_segment (last ?S)" using pl ne by (metis last_in_set list_all_iff)
  have d: "d = CHR ''/'' # join_with ''/'' ?S" by (rule resolved_form [OF assms(1)])
  show ?thesis
  proof (cases "butlast ?S = []")
    case True
    then have "?S = [last ?S]" using S by simp
    then have "d = CHR ''/'' # last ?S" using d by (metis join_with.simps(2))
    moreover have "path_join d ''..'' = ''/''" using path_join_dotdot [OF assms(1)] True by simp
    ultimately show ?thesis using lastpl by (simp add: dir_prefix_def)
  next
    case False
    have "join_with ''/'' ?S = join_with ''/'' (butlast ?S) @ ''/'' @ last ?S"
      using join_with_snoc [OF False, of "''/''" "last ?S"] S by simp
    moreover have "join_with ''/'' (butlast ?S) \<noteq> []"
      using False list_all_butlast [OF pl] by (simp add: join_with_Nil_iff)
    ultimately show ?thesis
      using d path_join_dotdot [OF assms(1)] lastpl by (auto simp: dir_prefix_def)
  qed
qed

lemma basename_no_slash: "CHR ''/'' \<notin> set (path_basename p)"
  unfolding path_basename_def by (auto dest: set_takeWhileD)

lemma is_under_self: "is_under d d"
  by (simp add: is_under_def)

lemma is_under_entry: "is_under d (dir_prefix d @ name)"
  by (simp add: is_under_def starts_with_def)

lemma starts_with_append: "starts_with (xs @ ys) s \<Longrightarrow> starts_with xs s"
proof -
  assume "starts_with (xs @ ys) s"
  then have "take (length xs) (take (length (xs @ ys)) s) = take (length xs) (xs @ ys)"
    unfolding starts_with_def by (rule arg_cong)
  then show ?thesis by (simp add: starts_with_def min_def)
qed

lemma starts_with_self: "starts_with xs (xs @ ys)"
  by (simp add: starts_with_def)

lemma is_under_parent:
  assumes "is_resolved d" "is_under d q"
  shows "is_under (path_join d ''..'') q"
proof (cases "d = ''/''")
  case True
  then show ?thesis
    using assms path_join_dotdot [OF assms(1)] resolved_root_iff [OF assms(1)] by simp
next
  case False
  from parent_of_resolved [OF assms(1) False]
  have d: "d = dir_prefix (path_join d ''..'') @ last (segments_of d)" by simp
  have "starts_with (dir_prefix (path_join d ''..'')) q"
  proof (cases "q = d")
    case True
    then show ?thesis
      using d starts_with_self [of "dir_prefix (path_join d ''..'')" "last (segments_of d)"]
      by simp
  next
    case below: False
    then have "starts_with (d @ ''/'') q"
      using assms(2) False by (simp add: is_under_def dir_prefix_def)
    then have "starts_with ((dir_prefix (path_join d ''..'') @ last (segments_of d)) @ ''/'') q"
      using d by simp
    then have "starts_with (dir_prefix (path_join d ''..'') @ (last (segments_of d) @ ''/'')) q"
      by simp
    then show ?thesis by (rule starts_with_append)
  qed
  then show ?thesis by (simp add: is_under_def)
qed

text \<open>
  Every base name other than \<^verbatim>\<open>..\<close> resolves to the upload directory or to a path below it.
\<close>

lemma basename_stays_inside:
  assumes "is_resolved d" "path_basename filename \<noteq> ''..''"
  shows "is_under d (path_join d (path_basename filename))"
proof -
  let ?b = "path_basename filename"
  consider "?b = []" | "?b = ''.''" | "plain_segment ?b"
    using assms(2) basename_no_slash [of filename] by (auto simp: plain_segment_def)
  then show ?thesis
  proof cases
    case 1
    then show ?thesis using path_join_empty [OF assms(1)] by (simp add: is_under_self)
  next
    case 2
    then show ?thesis using path_join_dot [OF assms(1)] by (simp add: is_under_self)
  next
    case 3
    then show ?thesis using path_join_plain [OF assms(1)] by (simp add: is_under_entry)
  qed
qed

text \<open>
  Claim C1. The info and delete handlers join the base name of the file name to the
  upload directory; but the resolved path can lie outside it. The base name of \<^verbatim>\<open>..\<close> is
  \<^verbatim>\<open>..\<close> itself, which joined to \<^verbatim>\<open>/srv/up\<close> resolves to \<^verbatim>\<open>/srv\<close>, and the info route
  reports on that directory.
\<close>

theorem dotdot_resolves_outside_uploadDir:
  "path_basename ''..'' = ''..''
   \<and> path_join ''/srv/up'' (path_basename ''..'') = ''/srv''
   \<and> \<not> is_under ''/srv/up'' ''/srv''
   \<and> body (resp (handle example_settings (example_request (GET_info ''..'')) example_disk))
      = Render_info \<lparr>info_name = ''..'', info_size = 0, info_modified = 1,
                     info_absolutePath = ''/srv''\<rparr>"
  by code_simp

subsection \<open>The filesystem\<close>

lemma entry_name_entry:
  "name \<noteq> [] \<Longrightarrow> CHR ''/'' \<notin> set name \<Longrightarrow> entry_name d (dir_prefix d @ name) = Some name"
  by (simp add: entry_name_def starts_with_def)

lemma set_fs_put: "set (fs_put disk p st) \<subseteq> insert (p, st) (set disk)"
  by (induction disk p st rule: fs_put.induct) auto

lemma fs_stat_fs_put: "fs_stat (fs_put disk p st) p = Some st"
  unfolding fs_stat_def by (induction disk p st rule: fs_put.induct) auto

lemma set_fs_unlink: "set (fs_unlink disk p) = {(q, st) \<in> set disk. q \<noteq> p}"
  by (auto simp: fs_unlink_def)

lemma set_remove_uploaded: "set (remove_uploaded disk ups) = {(q, st) \<in> set disk. q \<notin> set ups}"
  unfolding remove_uploaded_def
  by (induction ups arbitrary: disk) (auto simp: set_fs_unlink)

lemma set_fs_remove: "set (snd (fs_remove disk p)) \<subseteq> set disk"
  by (auto simp: fs_remove_def)

text \<open>What exists in a part of the filesystem exists in the whole.\<close>

lemma pathExists_subset:
  "set disk' \<subseteq> set disk \<Longrightarrow> pathExists disk' q \<Longrightarrow> pathExists disk q"
proof -
  assume sub: "set disk' \<subseteq> set disk" and "pathExists disk' q"
  then obtain st where "map_of disk' q = Some st"
    by (auto simp: pathExists_def fs_stat_def)
  then have "(q, st) \<in> set disk" using sub map_of_SomeD by fastforce
  then show ?thesis
    using weak_map_of_SomeI [of q st disk] by (auto simp: pathExists_def fs_stat_def)
qed

lemma map_of_filter_None: "\<forall>st. \<not> P (k, st) \<Longrightarrow> map_of (filter P xs) k = None"
  by (induction xs) auto

lemma map_of_filter_kept: "\<forall>st. P (k, st) \<Longrightarrow> map_of (filter P xs) k = map_of xs k"
  by (induction xs) auto

text \<open>A path strictly below another one is longer.\<close>

lemma is_under_longer: "is_under a q \<Longrightarrow> a \<noteq> q \<Longrightarrow> length a < length q"
proof -
  assume "is_under a q" "a \<noteq> q"
  then have sw: "take (length (dir_prefix a)) q = dir_prefix a"
    by (simp add: is_under_def starts_with_def)
  have "length (take (length (dir_prefix a)) q) = length (dir_prefix a)"
    using sw by simp
  then have len: "length (dir_prefix a) \<le> length q" by simp
  show ?thesis
  proof (cases "a = ''/''")
    case True
    then have "take 1 q = ''/''" using sw by (simp add: dir_prefix_def)
    moreover have "q \<noteq> ''/''" using True \<open>a \<noteq> q\<close> by simp
    ultimately have "length q \<noteq> 1" by (cases q) auto
    then show ?thesis using len True by (simp add: dir_prefix_def)
  next
    case False
    then show ?thesis using len by (simp add: dir_prefix_def)
  qed
qed

lemma reached_self: "reached disk p p"
  using is_under_longer [of p] is_under_longer [of _ p]
  by (fastforce simp: reached_def list_all_iff)

text \<open>
  \<^verbatim>\<open>fs.remove(p)\<close> resolves exactly when nothing at or below \<open>p\<close> is refused: of the
  refused entries, the removal comes to one whose path is shortest. Whatever is at or
  below \<open>p\<close> is gone afterwards unless it is blocked, and what is blocked stays as it
  is; \<open>p\<close> itself is blocked as soon as anything is refused.
\<close>

lemma shortest_refused_reached:
  assumes "refused_under disk p \<noteq> []"
  shows "\<exists>r \<in> set (refused_under disk p). reached disk p (fst r)"
proof -
  let ?xs = "refused_under disk p"
  from assms obtain e where "e \<in> set ?xs" by (cases ?xs) auto
  then obtain r where r: "r \<in> set ?xs"
    and least: "\<forall>e. e \<in> set ?xs \<longrightarrow> length (fst r) \<le> length (fst e)"
    using ex_has_least_nat [of "\<lambda>e. e \<in> set ?xs" e "\<lambda>e. length (fst e)"] by blast
  have "descends a"
    if a: "a \<in> set disk" "is_under p (fst a)" "is_under (fst a) (fst r)" "fst a \<noteq> fst r" for a
  proof (rule ccontr)
    assume "\<not> descends a"
    then have "refusal a \<noteq> None" by (cases "refusal a") (auto simp: descends_def)
    then have "a \<in> set ?xs" using a by (simp add: refused_under_def)
    with least is_under_longer [OF a(3) a(4)] show False by fastforce
  qed
  then have "reached disk p (fst r)" by (auto simp: reached_def list_all_iff)
  with r show ?thesis by blast
qed

lemma fs_remove_resolves: "fst (fs_remove disk p) = None \<longleftrightarrow> refused_under disk p = []"
proof (cases "filter (\<lambda>e. reached disk p (fst e)) (refused_under disk p)")
  case Nil
  then have "refused_under disk p = []"
    using shortest_refused_reached [of disk p] by (auto simp: filter_empty_conv)
  then show ?thesis by (simp add: fs_remove_def)
next
  case (Cons e es)
  then have "e \<in> set (filter (\<lambda>e. reached disk p (fst e)) (refused_under disk p))" by simp
  then have e: "e \<in> set (refused_under disk p)" by simp
  then have "refusal e \<noteq> None" by (simp add: refused_under_def)
  moreover have "refused_under disk p \<noteq> []" using e by auto
  ultimately show ?thesis using Cons by (simp add: fs_remove_def)
qed

lemma nothing_blocked: "refused_under disk p = [] \<Longrightarrow> is_under p q \<Longrightarrow> \<not> blocked disk p q"
proof -
  assume none: "refused_under disk p = []" and "is_under p q"
  have "descends a" if "a \<in> set disk" "is_under p (fst a)" for a
  proof -
    have "a \<notin> set (refused_under disk p)" using none by simp
    then have "refusal a = None" using that by (cases "refusal a") (auto simp: refused_under_def)
    then show ?thesis by (simp add: descends_def)
  qed
  then have "reached disk p q" by (auto simp: reached_def list_all_iff)
  then show ?thesis using none by (simp add: blocked_def)
qed

lemma target_blocked: "refused_under disk p \<noteq> [] \<Longrightarrow> blocked disk p p"
proof -
  assume "refused_under disk p \<noteq> []"
  then obtain r where r: "r \<in> set (refused_under disk p)" by (cases "refused_under disk p") auto
  then have "is_under p (fst r)" by (simp add: refused_under_def)
  then show ?thesis using r by (auto simp: blocked_def list_ex_iff)
qed

lemma removed_is_gone:
  "is_under p q \<Longrightarrow> \<not> blocked disk p q \<Longrightarrow> \<not> pathExists (snd (fs_remove disk p)) q"
  unfolding pathExists_def fs_stat_def fs_remove_def
  using map_of_filter_None
    [of "\<lambda>e. if is_under p (fst e) then blocked disk p (fst e) else True" q disk]
  by simp

lemma blocked_stays:
  "blocked disk p q \<Longrightarrow> fs_stat (snd (fs_remove disk p)) q = fs_stat disk q"
  unfolding fs_stat_def fs_remove_def
  using map_of_filter_kept
    [of "\<lambda>e. if is_under p (fst e) then blocked disk p (fst e) else True" q disk]
  by simp

subsection \<open>Delete\<close>

lemma handle_delete:
  "exact_match cfg (credentials req) \<Longrightarrow> body_error req = None
   \<Longrightarrow> route req = Routed (POST_delete filename)
   \<Longrightarrow> handle cfg req disk = delete_route cfg filename disk"
  by (simp add: handle_route)

text \<open>The three ways in which the confirming delete request ends.\<close>

lemma delete_file_vanished:
  "\<not> pathExists at_check (path_join (uploadDir cfg) (path_basename filename)) \<Longrightarrow>
     delete_file cfg filename at_check at_remove =
       \<lparr>resp = redirect ''/'', disk_after = at_remove,
        logged = [(WARN, [''Attempted to delete non-existent file: '' @ path_basename filename])]\<rparr>"
  by (simp add: delete_file_def Let_def)

lemma delete_file_removed:
  "pathExists at_check (path_join (uploadDir cfg) (path_basename filename)) \<Longrightarrow>
   refused_under at_remove (path_join (uploadDir cfg) (path_basename filename)) = [] \<Longrightarrow>
     delete_file cfg filename at_check at_remove =
       \<lparr>resp = redirect ''/'',
        disk_after = snd (fs_remove at_remove (path_join (uploadDir cfg) (path_basename filename))),
        logged = [(LOG, [''Deleted file: '' @ path_basename filename])]\<rparr>"
  using fs_remove_resolves [of at_remove "path_join (uploadDir cfg) (path_basename filename)"]
  by (cases "fs_remove at_remove (path_join (uploadDir cfg) (path_basename filename))")
     (simp add: delete_file_def Let_def)

lemma delete_file_rejected:
  "pathExists at_check (path_join (uploadDir cfg) (path_basename filename)) \<Longrightarrow>
   refused_under at_remove (path_join (uploadDir cfg) (path_basename filename)) \<noteq> [] \<Longrightarrow>
     delete_file cfg filename at_check at_remove =
       \<lparr>resp = send 500 ''Internal Server Error'',
        disk_after = snd (fs_remove at_remove (path_join (uploadDir cfg) (path_basename filename))),
        logged = [(ERROR, [''Error deleting file:'',
           snd (the (fst (fs_remove at_remove
                  (path_join (uploadDir cfg) (path_basename filename)))))])]\<rparr>"
  using fs_remove_resolves [of at_remove "path_join (uploadDir cfg) (path_basename filename)"]
  by (cases "fs_remove at_remove (path_join (uploadDir cfg) (path_basename filename))")
     (auto simp: delete_file_def Let_def)

text \<open>
  Claim C8, as the code has it. The confirming delete request, with \<open>target\<close> the path it
  resolves. If the target does not exist, the filesystem is left as it is, the only
  effect is a warning on the console, and the answer is the redirect to the listing. If
  it exists, the request calls \<^verbatim>\<open>fs.remove\<close> on it. When that resolves (nothing at or below
  the target is refused), the target is removed and the answer is the redirect; the same
  request once more then gets the same redirect, warns and changes nothing. When it
  rejects, the answer is status 500 with \<^verbatim>\<open>Internal Server Error\<close>, the error is logged,
  and the target is still there. The answer is the redirect also when other requests
  change the filesystem between the existence check and a removal that resolves.
\<close>

theorem confirmed_delete_is_idempotent:
  "exact_match cfg (credentials req) \<Longrightarrow> body_error req = None
   \<Longrightarrow> route req = Routed (POST_delete filename)
   \<Longrightarrow> target = path_join (uploadDir cfg) (path_basename filename)
   \<Longrightarrow> status (redirect ''/'') = 302
       \<and> (''Location'', ''/'') \<in> set (headers (redirect ''/''))
       \<and> (\<not> pathExists disk target \<longrightarrow>
             resp (handle cfg req disk) = redirect ''/''
             \<and> disk_after (handle cfg req disk) = disk
             \<and> logged (handle cfg req disk)
                 = [(WARN, [''Attempted to delete non-existent file: ''
                            @ path_basename filename])])
       \<and> (pathExists disk target \<and> refused_under disk target = [] \<longrightarrow>
             resp (handle cfg req disk) = redirect ''/''
             \<and> disk_after (handle cfg req disk) = snd (fs_remove disk target)
             \<and> logged (handle cfg req disk)
                 = [(LOG, [''Deleted file: '' @ path_basename filename])]
             \<and> \<not> pathExists (disk_after (handle cfg req disk)) target
             \<and> resp (handle cfg req (disk_after (handle cfg req disk))) = redirect ''/''
             \<and> disk_after (handle cfg req (disk_after (handle cfg req disk)))
                 = disk_after (handle cfg req disk)
             \<and> logged (handle cfg req (disk_after (handle cfg req disk)))
                 = [(WARN, [''Attempted to delete non-existent file: ''
                            @ path_basename filename])])
       \<and> (pathExists disk target \<and> refused_under disk target \<noteq> [] \<longrightarrow>
             resp (handle cfg req disk) = send 500 ''Internal Server Error''
             \<and> disk_after (handle cfg req disk) = snd (fs_remove disk target)
             \<and> logged (handle cfg req disk)
                 = [(ERROR, [''Error deleting file:'', snd (the (fst (fs_remove disk target)))])]
             \<and> pathExists (disk_after (handle cfg req disk)) target)
       \<and> (refused_under at_remove target = [] \<longrightarrow>
             resp (delete_file cfg filename at_check at_remove) = redirect ''/'')"
proof -
  assume ok: "exact_match cfg (credentials req)" and nb: "body_error req = None"
    and r: "route req = Routed (POST_delete filename)"
    and t: "target = path_join (uploadDir cfg) (path_basename filename)"
  have h: "handle cfg req d = delete_file cfg filename d d" for d
    using handle_delete [OF ok nb r] by (simp add: delete_route_def)
  have vanished: "resp (handle cfg req d) = redirect ''/''
             \<and> disk_after (handle cfg req d) = d
             \<and> logged (handle cfg req d)
                 = [(WARN, [''Attempted to delete non-existent file: ''
                            @ path_basename filename])]"
    if "\<not> pathExists d target" for d
    using that delete_file_vanished [of d cfg filename d] by (simp add: h t)
  have removed: "resp (handle cfg req disk) = redirect ''/''
             \<and> disk_after (handle cfg req disk) = snd (fs_remove disk target)
             \<and> logged (handle cfg req disk)
                 = [(LOG, [''Deleted file: '' @ path_basename filename])]
             \<and> \<not> pathExists (disk_after (handle cfg req disk)) target"
    if "pathExists disk target \<and> refused_under disk target = []"
    using that delete_file_removed [of disk cfg filename disk]
      removed_is_gone [OF is_under_self nothing_blocked [OF _ is_under_self], of disk target]
    by (simp add: h t)
  have rejected: "resp (handle cfg req disk) = send 500 ''Internal Server Error''
             \<and> disk_after (handle cfg req disk) = snd (fs_remove disk target)
             \<and> logged (handle cfg req disk)
                 = [(ERROR, [''Error deleting file:'', snd (the (fst (fs_remove disk target)))])]
             \<and> pathExists (disk_after (handle cfg req disk)) target"
    if "pathExists disk target \<and> refused_under disk target \<noteq> []"
    using that delete_file_rejected [of disk cfg filename disk]
      blocked_stays [OF target_blocked, of disk target]
    by (simp add: h t pathExists_def)
  have race: "resp (delete_file cfg filename at_check at_remove) = redirect ''/''"
    if "refused_under at_remove target = []"
    using that delete_file_vanished [of at_check cfg filename at_remove]
      delete_file_removed [of at_check cfg filename at_remove]
    by (cases "pathExists at_check target") (simp_all add: t)
  have "status (redirect ''/'') = 302" "(''Location'', ''/'') \<in> set (headers (redirect ''/''))"
    by (simp_all add: redirect_def)
  with vanished [of disk] vanished [of "disk_after (handle cfg req disk)"] removed rejected race
  show ?thesis by blast
qed

text \<open>
  Claim C8, as stated, fails: where the upload directory is read-only, the confirming
  delete request of the existing file \<^verbatim>\<open>2-b.txt\<close> is answered with status 500 and not with
  the redirect, and the file is still there.
\<close>

theorem confirmed_delete_rejected_counterexample:
  "pathExists read_only_disk ''/srv/up/2-b.txt''
   \<and> resp (handle example_settings (example_request (POST_delete ''2-b.txt'')) read_only_disk)
       = send 500 ''Internal Server Error''
   \<and> resp (handle example_settings (example_request (POST_delete ''2-b.txt'')) read_only_disk)
       \<noteq> redirect ''/''
   \<and> logged (handle example_settings (example_request (POST_delete ''2-b.txt'')) read_only_disk)
       = [(ERROR, [''Error deleting file:'',
                   ''EACCES: permission denied, unlink '' @ quoted ''/srv/up/2-b.txt''])]
   \<and> disk_after (handle example_settings (example_request (POST_delete ''2-b.txt''))
        read_only_disk) = read_only_disk"
  by code_simp

text \<open>
  Deleting \<^verbatim>\<open>2-b.txt\<close> from the example directory, twice: the second request finds it gone
  and warns. And deleting it where the upload directory is read-only.
\<close>

theorem confirmed_delete_is_idempotent_witness:
  "exact_match example_settings (credentials (example_request (POST_delete ''2-b.txt'')))
   \<and> pathExists example_disk (path_join (uploadDir example_settings) (path_basename ''2-b.txt''))
   \<and> refused_under example_disk
        (path_join (uploadDir example_settings) (path_basename ''2-b.txt'')) = []
   \<and> resp (handle example_settings (example_request (POST_delete ''2-b.txt'')) example_disk)
       = redirect ''/''
   \<and> disk_after (handle example_settings (example_request (POST_delete ''2-b.txt'')) example_disk)
       = [(''/'', dir_stats), (''/srv'', dir_stats), (''/srv/up'', dir_stats),
          (''/srv/up/1-a.txt'', file_stats 5), (''/srv/up/3-c.txt'', file_stats 5),
          (''/srv/other'', file_stats 9)]
   \<and> resp (handle example_settings (example_request (POST_delete ''2-b.txt''))
        (disk_after (handle example_settings (example_request (POST_delete ''2-b.txt'')) example_disk)))
       = redirect ''/''
   \<and> disk_after (handle example_settings (example_request (POST_delete ''2-b.txt''))
        (disk_after (handle example_settings (example_request (POST_delete ''2-b.txt'')) example_disk)))
       = disk_after (handle example_settings (example_request (POST_delete ''2-b.txt'')) example_disk)
   \<and> logged (handle example_settings (example_request (POST_delete ''2-b.txt''))
        (disk_after (handle example_settings (example_request (POST_delete ''2-b.txt'')) example_disk)))
       = [(WARN, [''Attempted to delete non-existent file: 2-b.txt''])]
   \<and> pathExists read_only_disk
        (path_join (uploadDir example_settings) (path_basename ''2-b.txt''))
   \<and> refused_under read_only_disk
        (path_join (uploadDir example_settings) (path_basename ''2-b.txt'')) \<noteq> []
   \<and> resp (handle example_settings (example_request (POST_delete ''2-b.txt'')) read_only_disk)
       = send 500 ''Internal Server Error''
   \<and> pathExists
        (disk_after (handle example_settings (example_request (POST_delete ''2-b.txt''))
           read_only_disk))
        (path_join (uploadDir example_settings) (path_basename ''2-b.txt''))"
proof -
  let ?req = "example_request (POST_delete ''2-b.txt'')"
  let ?t = "path_join (uploadDir example_settings) (path_basename ''2-b.txt'')"
  have ok: "exact_match example_settings (credentials ?req)" by code_simp
  have nb: "body_error ?req = None" by code_simp
  have r: "route ?req = Routed (POST_delete ''2-b.txt'')" by code_simp
  have ex: "pathExists example_disk ?t" by code_simp
  have free: "refused_under example_disk ?t = []" by code_simp
  have ex': "pathExists read_only_disk ?t" by code_simp
  have held: "refused_under read_only_disk ?t \<noteq> []" by code_simp
  note c = confirmed_delete_is_idempotent [OF ok nb r refl, where disk = example_disk]
  note c' = confirmed_delete_is_idempotent [OF ok nb r refl, where disk = read_only_disk]
  from c ex free
  have "disk_after (handle example_settings ?req example_disk) = snd (fs_remove example_disk ?t)"
    by blast
  also have "\<dots> = [(''/'', dir_stats), (''/srv'', dir_stats), (''/srv/up'', dir_stats),
          (''/srv/up/1-a.txt'', file_stats 5), (''/srv/up/3-c.txt'', file_stats 5),
          (''/srv/other'', file_stats 9)]"
    by code_simp
  finally have d: "disk_after (handle example_settings ?req example_disk)
       = [(''/'', dir_stats), (''/srv'', dir_stats), (''/srv/up'', dir_stats),
          (''/srv/up/1-a.txt'', file_stats 5), (''/srv/up/3-c.txt'', file_stats 5),
          (''/srv/other'', file_stats 9)]" .
  have msg: "''Attempted to delete non-existent file: '' @ path_basename ''2-b.txt''
              = ''Attempted to delete non-existent file: 2-b.txt''"
    by code_simp
  from c ex free
  have first: "resp (handle example_settings ?req example_disk) = redirect ''/''"
    and again: "resp (handle example_settings ?req
             (disk_after (handle example_settings ?req example_disk))) = redirect ''/''"
    and same: "disk_after (handle example_settings ?req
             (disk_after (handle example_settings ?req example_disk)))
           = disk_after (handle example_settings ?req example_disk)"
    and "logged (handle example_settings ?req
             (disk_after (handle example_settings ?req example_disk)))
           = [(WARN, [''Attempted to delete non-existent file: '' @ path_basename ''2-b.txt''])]"
    by blast+
  then have w: "logged (handle example_settings ?req
             (disk_after (handle example_settings ?req example_disk)))
           = [(WARN, [''Attempted to delete non-existent file: 2-b.txt''])]"
    using msg by simp
  from c' ex' held
  have e: "resp (handle example_settings ?req read_only_disk) = send 500 ''Internal Server Error''"
    and s: "pathExists (disk_after (handle example_settings ?req read_only_disk)) ?t"
    by blast+
  from ok ex free first d again same w ex' held e s show ?thesis by blast
qed

text \<open>
  Claim C10, as the code has it. The base names of \<^verbatim>\<open>.\<close> and \<^verbatim>\<open>..\<close> are these names
  themselves. Joined to the upload directory, \<^verbatim>\<open>.\<close> resolves to the directory itself, and
  \<^verbatim>\<open>..\<close> to the path in which the directory is an entry, its parent, which holds the
  upload directory and all that is in it. Where the resolved path exists, the confirming
  delete request calls \<^verbatim>\<open>fs.remove\<close> on it: everything at or below it that is not blocked
  is gone afterwards, and what is blocked is as it was. When nothing is refused, the
  whole directory is gone, and the answer is the usual redirect; when something is, the
  directory is still there and the answer is status 500.
\<close>

theorem dot_names_delete_the_directory:
  "is_resolved (uploadDir cfg) \<Longrightarrow> exact_match cfg (credentials req) \<Longrightarrow> body_error req = None \<Longrightarrow>
     path_basename ''.'' = ''.'' \<and> path_basename ''..'' = ''..''
     \<and> path_join (uploadDir cfg) (path_basename ''.'') = uploadDir cfg
     \<and> (uploadDir cfg \<noteq> ''/'' \<longrightarrow>
          entry_name (path_join (uploadDir cfg) (path_basename ''..'')) (uploadDir cfg) \<noteq> None)
     \<and> (\<forall>q. is_under (uploadDir cfg) q \<longrightarrow> is_under (path_join (uploadDir cfg) ''..'') q)
     \<and> ((route req = Routed (POST_delete ''.'') \<and> target = uploadDir cfg
          \<or> route req = Routed (POST_delete ''..'') \<and> target = path_join (uploadDir cfg) ''..'')
         \<and> pathExists disk target \<longrightarrow>
          disk_after (handle cfg req disk) = snd (fs_remove disk target)
          \<and> (\<forall>q. is_under target q \<and> \<not> blocked disk target q
                \<longrightarrow> \<not> pathExists (disk_after (handle cfg req disk)) q)
          \<and> (\<forall>q. blocked disk target q
                \<longrightarrow> fs_stat (disk_after (handle cfg req disk)) q = fs_stat disk q)
          \<and> (refused_under disk target = [] \<longrightarrow>
                resp (handle cfg req disk) = redirect ''/''
                \<and> (\<forall>q. is_under target q
                      \<longrightarrow> \<not> pathExists (disk_after (handle cfg req disk)) q))
          \<and> (refused_under disk target \<noteq> [] \<longrightarrow>
                resp (handle cfg req disk) = send 500 ''Internal Server Error''
                \<and> pathExists (disk_after (handle cfg req disk)) target))"
proof -
  assume res: "is_resolved (uploadDir cfg)" and ok: "exact_match cfg (credentials req)"
    and nb: "body_error req = None"
  let ?d = "uploadDir cfg"
  have b1: "path_basename ''.'' = ''.''" and b2: "path_basename ''..'' = ''..''"
    by (simp_all add: path_basename_def)
  have j1: "path_join ?d (path_basename ''.'') = ?d"
    using path_join_dot [OF res] b1 by simp
  have parent: "entry_name (path_join ?d (path_basename ''..'')) ?d \<noteq> None" if "?d \<noteq> ''/''"
  proof -
    from parent_of_resolved [OF res that]
    have "?d = dir_prefix (path_join ?d ''..'') @ last (segments_of ?d)"
      and "plain_segment (last (segments_of ?d))" by simp_all
    then have "entry_name (path_join ?d ''..'') ?d = Some (last (segments_of ?d))"
      using entry_name_entry [of "last (segments_of ?d)" "path_join ?d ''..''"]
      by (simp add: plain_segment_def)
    then show ?thesis using b2 by simp
  qed
  have below: "\<forall>q. is_under ?d q \<longrightarrow> is_under (path_join ?d ''..'') q"
    using is_under_parent [OF res] by blast
  have removal: "disk_after (handle cfg req disk) = snd (fs_remove disk target)
          \<and> (\<forall>q. is_under target q \<and> \<not> blocked disk target q
                \<longrightarrow> \<not> pathExists (disk_after (handle cfg req disk)) q)
          \<and> (\<forall>q. blocked disk target q
                \<longrightarrow> fs_stat (disk_after (handle cfg req disk)) q = fs_stat disk q)
          \<and> (refused_under disk target = [] \<longrightarrow>
                resp (handle cfg req disk) = redirect ''/''
                \<and> (\<forall>q. is_under target q
                      \<longrightarrow> \<not> pathExists (disk_after (handle cfg req disk)) q))
          \<and> (refused_under disk target \<noteq> [] \<longrightarrow>
                resp (handle cfg req disk) = send 500 ''Internal Server Error''
                \<and> pathExists (disk_after (handle cfg req disk)) target)"
    if a: "(route req = Routed (POST_delete ''.'') \<and> target = ?d
          \<or> route req = Routed (POST_delete ''..'') \<and> target = path_join ?d ''..'')
         \<and> pathExists disk target"
  proof -
    from a obtain name where r: "route req = Routed (POST_delete name)"
      and t: "target = path_join ?d (path_basename name)"
      using j1 b2 by auto
    have h: "handle cfg req disk = delete_file cfg name disk disk"
      using handle_delete [OF ok nb r] by (simp add: delete_route_def)
    have ex: "pathExists disk (path_join ?d (path_basename name))" using a t by simp
    have after: "disk_after (handle cfg req disk) = snd (fs_remove disk target)"
      using delete_file_removed [OF ex, of disk] delete_file_rejected [OF ex, of disk] h t
      by (cases "refused_under disk target = []") simp_all
    have gone: "\<not> pathExists (disk_after (handle cfg req disk)) q"
      if "is_under target q" "\<not> blocked disk target q" for q
      using removed_is_gone [OF that] after by simp
    have stays: "fs_stat (disk_after (handle cfg req disk)) q = fs_stat disk q"
      if "blocked disk target q" for q
      using blocked_stays [OF that] after by simp
    have free: "resp (handle cfg req disk) = redirect ''/''
                \<and> (\<forall>q. is_under target q
                      \<longrightarrow> \<not> pathExists (disk_after (handle cfg req disk)) q)"
      if "refused_under disk target = []"
      using delete_file_removed [OF ex, of disk] that h t gone nothing_blocked [OF that]
      by auto
    have held: "resp (handle cfg req disk) = send 500 ''Internal Server Error''
                \<and> pathExists (disk_after (handle cfg req disk)) target"
      if "refused_under disk target \<noteq> []"
      using delete_file_rejected [OF ex, of disk] that h t a after
        blocked_stays [OF target_blocked [OF that]]
      by (simp add: pathExists_def)
    from after gone stays free held show ?thesis by blast
  qed
  from b1 b2 j1 parent below removal show ?thesis by blast
qed

text \<open>
  Claim C10, as stated, fails where the system refuses a removal. With the upload
  directory \<^verbatim>\<open>/srv/up\<close>, owned by the process in a tree that is not: the confirming delete
  requests for \<^verbatim>\<open>..\<close> and for \<^verbatim>\<open>.\<close> are answered with status 500, and nothing is removed.
  With one immutable file in the upload directory, the request for \<^verbatim>\<open>.\<close> is answered
  with status 500 as well; the other files are gone, the file and the directory are
  still there. And when the upload directory does not exist (any more), the existence
  check fails and nothing is removed.
\<close>

theorem dot_names_rejected_counterexample:
  "resp (handle example_settings (example_request (POST_delete ''..'')) owned_disk)
       = send 500 ''Internal Server Error''
   \<and> disk_after (handle example_settings (example_request (POST_delete ''..'')) owned_disk)
       = owned_disk
   \<and> resp (handle example_settings (example_request (POST_delete ''.'')) owned_disk)
       = send 500 ''Internal Server Error''
   \<and> disk_after (handle example_settings (example_request (POST_delete ''.'')) owned_disk)
       = owned_disk
   \<and> resp (handle example_settings (example_request (POST_delete ''.'')) pinned_disk)
       = send 500 ''Internal Server Error''
   \<and> map fst (disk_after (handle example_settings (example_request (POST_delete ''.''))
        pinned_disk))
       = [''/'', ''/srv'', ''/srv/up'', ''/srv/up/2-b.txt'', ''/srv/other'']
   \<and> logged (handle example_settings (example_request (POST_delete ''.''))
        [(''/'', dir_stats), (''/srv'', dir_stats)])
       = [(WARN, [''Attempted to delete non-existent file: .''])]"
  by code_simp

text \<open>
  With the upload directory \<^verbatim>\<open>/srv/up\<close>: where nothing is refused, deleting \<^verbatim>\<open>.\<close> leaves
  nothing of it, and deleting \<^verbatim>\<open>..\<close> leaves nothing of \<^verbatim>\<open>/srv\<close>. Where one stored file is
  immutable, deleting \<^verbatim>\<open>.\<close> removes the other files and is answered with status 500.
\<close>

theorem dot_names_delete_the_directory_witness:
  "is_resolved (uploadDir example_settings)
   \<and> exact_match example_settings (credentials (example_request (POST_delete ''.'')))
   \<and> pathExists example_disk (uploadDir example_settings)
   \<and> pathExists example_disk (path_join (uploadDir example_settings) ''..'')
   \<and> resp (handle example_settings (example_request (POST_delete ''.'')) example_disk)
       = redirect ''/''
   \<and> disk_after (handle example_settings (example_request (POST_delete ''.'')) example_disk)
       = [(''/'', dir_stats), (''/srv'', dir_stats), (''/srv/other'', file_stats 9)]
   \<and> disk_after (handle example_settings (example_request (POST_delete ''..'')) example_disk)
       = [(''/'', dir_stats)]
   \<and> resp (handle example_settings (example_request (POST_delete ''.'')) pinned_disk)
       = send 500 ''Internal Server Error''
   \<and> map fst (disk_after (handle example_settings (example_request (POST_delete ''.''))
        pinned_disk))
       = [''/'', ''/srv'', ''/srv/up'', ''/srv/up/2-b.txt'', ''/srv/other'']"
proof -
  let ?d = "uploadDir example_settings"
  let ?r1 = "example_request (POST_delete ''.'')"
  let ?r2 = "example_request (POST_delete ''..'')"
  have res: "is_resolved ?d" by code_simp
  have ok1: "exact_match example_settings (credentials ?r1)" by code_simp
  have ok2: "exact_match example_settings (credentials ?r2)" by code_simp
  have nb1: "body_error ?r1 = None" by code_simp
  have nb2: "body_error ?r2 = None" by code_simp
  have r1: "route ?r1 = Routed (POST_delete ''.'')" by code_simp
  have r2: "route ?r2 = Routed (POST_delete ''..'')" by code_simp
  have e1: "pathExists example_disk ?d" by code_simp
  have e2: "pathExists example_disk (path_join ?d ''..'')" by code_simp
  have e3: "pathExists pinned_disk ?d" by code_simp
  have f1: "refused_under example_disk ?d = []" by code_simp
  have f3: "refused_under pinned_disk ?d \<noteq> []" by code_simp
  note t1 = dot_names_delete_the_directory [OF res ok1 nb1,
      where disk = example_disk and target = ?d]
  note t2 = dot_names_delete_the_directory [OF res ok2 nb2,
      where disk = example_disk and target = "path_join ?d ''..''"]
  note t3 = dot_names_delete_the_directory [OF res ok1 nb1,
      where disk = pinned_disk and target = ?d]
  from t1 r1 e1 f1
  have a1: "resp (handle example_settings ?r1 example_disk) = redirect ''/''"
    and "disk_after (handle example_settings ?r1 example_disk) = snd (fs_remove example_disk ?d)"
    by blast+
  moreover have "snd (fs_remove example_disk ?d)
      = [(''/'', dir_stats), (''/srv'', dir_stats), (''/srv/other'', file_stats 9)]"
    by code_simp
  ultimately have d1: "disk_after (handle example_settings ?r1 example_disk)
       = [(''/'', dir_stats), (''/srv'', dir_stats), (''/srv/other'', file_stats 9)]"
    by simp
  from t2 r2 e2
  have "disk_after (handle example_settings ?r2 example_disk)
        = snd (fs_remove example_disk (path_join ?d ''..''))"
    by blast
  moreover have "snd (fs_remove example_disk (path_join ?d ''..'')) = [(''/'', dir_stats)]"
    by code_simp
  ultimately have d2: "disk_after (handle example_settings ?r2 example_disk)
       = [(''/'', dir_stats)]"
    by simp
  from t3 r1 e3 f3
  have a3: "resp (handle example_settings ?r1 pinned_disk) = send 500 ''Internal Server Error''"
    and "disk_after (handle example_settings ?r1 pinned_disk) = snd (fs_remove pinned_disk ?d)"
    by blast+
  moreover have "map fst (snd (fs_remove pinned_disk ?d))
      = [''/'', ''/srv'', ''/srv/up'', ''/srv/up/2-b.txt'', ''/srv/other'']"
    by code_simp
  ultimately have d3: "map fst (disk_after (handle example_settings ?r1 pinned_disk))
       = [''/'', ''/srv'', ''/srv/up'', ''/srv/up/2-b.txt'', ''/srv/other'']"
    by simp
  from res ok1 e1 e2 a1 d1 d2 a3 d3 show ?thesis by blast
qed

subsection \<open>The upload pipeline\<close>

lemma fileFilter_result:
  "snd (fileFilter cfg original) =
     (if allowedExtensions cfg = [] \<or> fileExtension original \<in> set (allowedExtensions cfg)
      then None else Some (Error (invalid_file_type cfg)))"
  by (simp add: fileFilter_def invalid_file_type_def)

lemma invalid_file_type_not_Nil: "invalid_file_type cfg \<noteq> []"
  by (simp add: invalid_file_type_def)

lemma handleFile_path:
  "handleFile cfg disk p = Inr (finalPath, disk') \<Longrightarrow>
     finalPath = storage_path cfg p
     \<and> disk' = fs_put disk finalPath \<lparr>kind = RegularFile,
           size_bytes = min (bytes p) (maxSize cfg), mtimeMs = written p, remove_error = None\<rparr>"
  by (auto simp: handleFile_def storage_path_def Let_def split: if_splits)

lemma handleFile_subset:
  "handleFile cfg disk p = Inr (finalPath, disk') \<Longrightarrow>
     \<exists>st. set disk' \<subseteq> insert (finalPath, st) (set disk)"
  using handleFile_path [of cfg disk p finalPath disk'] set_fs_put by blast

text \<open>
  Whatever is on the disk after a failed upload was there before it: every path the
  request has written is removed again.
\<close>

lemma multer_parts_failed_subset:
  "\<forall>(q, st) \<in> set disk. q \<in> set ups \<or> (q, st) \<in> A \<Longrightarrow>
   multer_parts cfg n files ups disk ps = Failed err disk' \<Longrightarrow> set disk' \<subseteq> A"
proof (induction ps arbitrary: n files ups disk)
  case Nil
  then show ?case by simp
next
  case (Cons p ps)
  have removed: "set (remove_uploaded disk ups) \<subseteq> A"
    using Cons.prems(1) by (auto simp: set_remove_uploaded)
  show ?case
  proof (cases "handleFile cfg disk p")
    case (Inl e)
    then show ?thesis
      using Cons removed
      by (auto split: if_splits option.splits)
  next
    case (Inr r)
    obtain finalPath d where r: "r = (finalPath, d)" by (cases r)
    have inv: "\<forall>(q, st) \<in> set d. q \<in> set (ups @ [finalPath]) \<or> (q, st) \<in> A"
      using handleFile_subset [of cfg disk p finalPath d] Inr r Cons.prems(1) by fastforce
    then have removed': "set (remove_uploaded d (ups @ [finalPath])) \<subseteq> A"
      by (auto simp: set_remove_uploaded)
    show ?thesis
      using Cons.prems(2) Cons.IH [OF Cons.prems(1)] Cons.IH [OF inv] removed removed' Inr r
      by (auto split: if_splits option.splits)
  qed
qed

lemma upload_array_failed_subset:
  "upload_array cfg parts disk = Failed err disk' \<Longrightarrow> set disk' \<subseteq> set disk"
  unfolding upload_array_def
  by (rule multer_parts_failed_subset [where ups = "[]" and A = "set disk"]) auto

text \<open>
  What a request that multer accepts looks like: no more files than \<open>filesLeft\<close>, each of
  them in the field \<^verbatim>\<open>file\<close>, let through by the file filter and short of the size limit.
\<close>

lemma multer_parts_parsed:
  "multer_parts cfg n files ups disk ps = Parsed files' disk' \<Longrightarrow>
     length (filter named ps) \<le> n
     \<and> files' = files @ map originalname (filter named ps)
     \<and> (\<forall>p \<in> set ps. named p \<longrightarrow>
           fieldname p = ''file'' \<and> snd (fileFilter cfg (originalname p)) = None
           \<and> \<not> limit_reached cfg p)"
proof (induction ps arbitrary: n files ups disk)
  case Nil
  then show ?case by simp
next
  case (Cons p ps)
  show ?case
  proof (cases "named p")
    case False
    then show ?thesis using Cons by (simp add: named_def)
  next
    case True
    from Cons.prems True obtain finalPath d where
      f: "fieldname p = ''file''" and n: "n \<noteq> 0"
      and ff: "snd (fileFilter cfg (originalname p)) = None"
      and hf: "handleFile cfg disk p = Inr (finalPath, d)"
      and sz: "\<not> limit_reached cfg p"
      and rest: "multer_parts cfg (n - 1) (files @ [originalname p]) (ups @ [finalPath]) d ps
                 = Parsed files' disk'"
      by (auto simp: named_def split: if_splits option.splits sum.splits)
    from Cons.IH [OF rest] show ?thesis
      using f n ff sz True by auto
  qed
qed

lemma upload_array_parsed:
  "upload_array cfg parts disk = Parsed files disk' \<Longrightarrow>
     length (filter named parts) \<le> maxFiles cfg
     \<and> files = map originalname (filter named parts)
     \<and> (\<forall>p \<in> set parts. named p \<longrightarrow>
           fieldname p = ''file'' \<and> snd (fileFilter cfg (originalname p)) = None
           \<and> \<not> limit_reached cfg p)"
  unfolding upload_array_def using multer_parts_parsed [of cfg "maxFiles cfg" "[]"] by simp

text \<open>The parts after a prefix that multer accepts are processed from where it ended.\<close>

lemma multer_parts_append:
  "multer_parts cfg n files ups disk xs = Parsed files' disk' \<Longrightarrow>
     \<exists>ups'. multer_parts cfg n files ups disk (xs @ ys)
             = multer_parts cfg (n - length (filter named xs)) files' ups' disk' ys"
proof (induction xs arbitrary: n files ups disk)
  case Nil
  then show ?case by auto
next
  case (Cons p ps)
  show ?case
  proof (cases "named p")
    case False
    then show ?thesis using Cons by (simp add: named_def)
  next
    case True
    from Cons.prems True obtain finalPath d where
      f: "fieldname p = ''file''" and n: "n \<noteq> 0"
      and ff: "snd (fileFilter cfg (originalname p)) = None"
      and hf: "handleFile cfg disk p = Inr (finalPath, d)"
      and sz: "\<not> limit_reached cfg p"
      and rest: "multer_parts cfg (n - 1) (files @ [originalname p]) (ups @ [finalPath]) d ps
                 = Parsed files' disk'"
      by (auto simp: named_def split: if_splits option.splits sum.splits)
    from Cons.IH [OF rest] obtain ups' where
      "multer_parts cfg (n - 1) (files @ [originalname p]) (ups @ [finalPath]) d (ps @ ys)
       = multer_parts cfg (n - 1 - length (filter named ps)) files' ups' disk' ys"
      by blast
    moreover have "originalname p \<noteq> []" using True by (simp add: named_def)
    ultimately show ?thesis
      using f n ff hf sz True by auto
  qed
qed

lemma first_error:
  assumes "upload_array cfg before disk = Parsed files d"
  shows "\<exists>ups. upload_array cfg (before @ p # rest) disk
           = multer_parts cfg (maxFiles cfg - length files) files ups d (p # rest)"
proof -
  from upload_array_parsed [OF assms] have "length files = length (filter named before)"
    by simp
  then show ?thesis
    using multer_parts_append [of cfg "maxFiles cfg" "[]" "[]" disk before files d "p # rest"]
      assms
    by (simp add: upload_array_def)
qed

text \<open>A failed upload is answered by the global error handler, with status 500.\<close>

lemma failed_response:
  "upload_array cfg parts disk = Failed err disk' \<Longrightarrow> message err \<noteq> [] \<Longrightarrow>
     resp (upload_route cfg parts disk) = send 500 (message err)
     \<and> disk_after (upload_route cfg parts disk) = disk'"
  by (simp add: upload_route_def global_error_handler_def send_def)

lemma failed_status:
  "upload_array cfg parts disk = Failed err disk' \<Longrightarrow>
     status (resp (upload_route cfg parts disk)) = 500
     \<and> set (disk_after (upload_route cfg parts disk)) \<subseteq> set disk"
  using upload_array_failed_subset [of cfg parts disk err disk']
  by (simp add: upload_route_def global_error_handler_def)

lemma not_parsed_failed:
  "(\<forall>files d. upload_array cfg parts disk \<noteq> Parsed files d) \<Longrightarrow>
     \<exists>err d. upload_array cfg parts disk = Failed err d"
  by (cases "upload_array cfg parts disk") auto

lemma handle_upload:
  "exact_match cfg (credentials req) \<Longrightarrow> body_error req = None
   \<Longrightarrow> route req = Routed (POST_upload parts)
   \<Longrightarrow> handle cfg req disk = upload_route cfg parts disk"
  by (simp add: handle_route)

text \<open>After a failed upload, a path that was free before the request is free.\<close>

lemma failed_leaves_free:
  "upload_array cfg parts disk = Failed err disk' \<Longrightarrow> \<not> pathExists disk q
     \<Longrightarrow> \<not> pathExists (disk_after (upload_route cfg parts disk)) q"
  using failed_status [of cfg parts disk err disk'] pathExists_subset by blast

text \<open>
  Claim C3, as the code has it. With an empty allow-list the file filter lets every
  original name through. With a non-empty one, an upload holding a file part whose
  extension (in lower case, without its dot) is not in the list is answered with status
  500, by the global error handler, and the file is not in the upload directory
  afterwards: the path at which the part would be stored, if free before the request,
  is free after it. When the part is the first of the request to fail (it is in the
  field \<^verbatim>\<open>file\<close>, and the parts before it are accepted and fewer than \<open>maxFiles\<close>), the
  body is the message that carries the allow-list.
\<close>

theorem disallowed_extension_is_rejected:
  "(allowedExtensions cfg = [] \<longrightarrow> snd (fileFilter cfg original) = None)
   \<and> (exact_match cfg (credentials req) \<and> body_error req = None
        \<and> route req = Routed (POST_upload parts)
        \<and> allowedExtensions cfg \<noteq> [] \<and> p \<in> set parts \<and> named p
        \<and> fileExtension (originalname p) \<notin> set (allowedExtensions cfg)
      \<longrightarrow> status (resp (handle cfg req disk)) = 500
          \<and> (\<not> pathExists disk (storage_path cfg p)
               \<longrightarrow> \<not> pathExists (disk_after (handle cfg req disk)) (storage_path cfg p))
          \<and> (parts = before @ p # rest \<and> upload_array cfg before disk = Parsed files d
               \<and> length files < maxFiles cfg \<and> fieldname p = ''file''
             \<longrightarrow> resp (handle cfg req disk) = send 500 (invalid_file_type cfg)))"
proof (intro conjI impI)
  assume "allowedExtensions cfg = []"
  then show "snd (fileFilter cfg original) = None" by (simp add: fileFilter_result)
next
  assume a: "exact_match cfg (credentials req) \<and> body_error req = None
        \<and> route req = Routed (POST_upload parts)
        \<and> allowedExtensions cfg \<noteq> [] \<and> p \<in> set parts \<and> named p
        \<and> fileExtension (originalname p) \<notin> set (allowedExtensions cfg)"
  then have h: "handle cfg req disk = upload_route cfg parts disk"
    by (simp add: handle_upload)
  have rej: "snd (fileFilter cfg (originalname p)) = Some (Error (invalid_file_type cfg))"
    using a by (simp add: fileFilter_result)
  have "\<forall>files d. upload_array cfg parts disk \<noteq> Parsed files d"
  proof (intro allI notI)
    fix files d assume "upload_array cfg parts disk = Parsed files d"
    from upload_array_parsed [OF this] a rej show False by auto
  qed
  then obtain err d' where failed: "upload_array cfg parts disk = Failed err d'"
    using not_parsed_failed by blast
  show "status (resp (handle cfg req disk)) = 500"
    using failed_status [OF failed] h by simp
  {
    assume "\<not> pathExists disk (storage_path cfg p)"
    then show "\<not> pathExists (disk_after (handle cfg req disk)) (storage_path cfg p)"
      using failed_leaves_free [OF failed] h by simp
  }
  assume b: "parts = before @ p # rest \<and> upload_array cfg before disk = Parsed files d
               \<and> length files < maxFiles cfg \<and> fieldname p = ''file''"
  then obtain ups where
    "upload_array cfg parts disk
     = multer_parts cfg (maxFiles cfg - length files) files ups d (p # rest)"
    using first_error [of cfg before disk files d p rest] by auto
  then have "upload_array cfg parts disk
      = Failed (Error (invalid_file_type cfg)) (remove_uploaded d ups)"
    using a b rej by (simp add: named_def)
  from failed_response [OF this]
  show "resp (handle cfg req disk) = send 500 (invalid_file_type cfg)"
    using h invalid_file_type_not_Nil by simp
qed

text \<open>
  Claim C3, as stated, fails: with the allow-list \<^verbatim>\<open>jpg, png\<close>, the upload of
  \<^verbatim>\<open>evil.exe\<close> is answered with status 500, not 400. The message carries the allow-list
  only when no other failure comes first: after a part that reaches the size limit of
  100 bytes it is that of the size limit, and for \<^verbatim>\<open>evil.exe\<close> in the field \<^verbatim>\<open>avatar\<close> it
  is that of the unexpected field. And a file that was at the storage path of the part
  before the request is still there.
\<close>

theorem disallowed_extension_status_counterexample:
  "allowedExtensions example_settings \<noteq> []
   \<and> fileExtension ''evil.exe'' \<notin> set (allowedExtensions example_settings)
   \<and> status (resp (handle example_settings
        (example_request (POST_upload [example_part ''evil.exe'' 10])) example_disk)) = 500
   \<and> status (resp (handle example_settings
        (example_request (POST_upload [example_part ''evil.exe'' 10])) example_disk)) \<noteq> 400
   \<and> resp (handle example_settings
        (example_request (POST_upload [example_part ''fit.png'' 100, example_part ''evil.exe'' 10]))
        example_disk) = send 500 ''File too large''
   \<and> resp (handle example_settings
        (example_request (POST_upload [(example_part ''evil.exe'' 10)\<lparr>fieldname := ''avatar''\<rparr>]))
        example_disk) = send 500 ''Unexpected field''
   \<and> storage_path example_settings (example_part ''evil.exe'' 10)
       = ''/srv/up/1700000000000-evil.exe''
   \<and> pathExists
        (disk_after (handle example_settings
           (example_request (POST_upload [example_part ''evil.exe'' 10]))
           (example_disk @ [(''/srv/up/1700000000000-evil.exe'', file_stats 2)])))
        ''/srv/up/1700000000000-evil.exe''"
  by code_simp

text \<open>
  An upload of \<^verbatim>\<open>ok.jpg\<close> and \<^verbatim>\<open>evil.exe\<close>: the answer carries the allow-list, and nothing
  is at the storage path of \<^verbatim>\<open>evil.exe\<close>.
\<close>

theorem disallowed_extension_is_rejected_witness:
  "snd (fileFilter (example_settings\<lparr>allowedExtensions := []\<rparr>) ''evil.exe'') = None
   \<and> exact_match example_settings
        (credentials (example_request
           (POST_upload [example_part ''ok.jpg'' 10, example_part ''evil.exe'' 10])))
   \<and> allowedExtensions example_settings \<noteq> []
   \<and> fileExtension (originalname (example_part ''evil.exe'' 10))
        \<notin> set (allowedExtensions example_settings)
   \<and> \<not> pathExists example_disk (storage_path example_settings (example_part ''evil.exe'' 10))
   \<and> upload_array example_settings [example_part ''ok.jpg'' 10] example_disk
       = Parsed [''ok.jpg'']
           (example_disk @ [(''/srv/up/1700000000000-ok.jpg'',
              \<lparr>kind = RegularFile, size_bytes = 10, mtimeMs = 1700000000001,
               remove_error = None\<rparr>)])
   \<and> resp (handle example_settings
        (example_request (POST_upload [example_part ''ok.jpg'' 10, example_part ''evil.exe'' 10]))
        example_disk)
       = send 500 ''Invalid file type. Allowed extensions are: jpg, png''
   \<and> \<not> pathExists
        (disk_after (handle example_settings
           (example_request (POST_upload [example_part ''ok.jpg'' 10, example_part ''evil.exe'' 10]))
           example_disk))
        (storage_path example_settings (example_part ''evil.exe'' 10))"
proof -
  let ?ok = "example_part ''ok.jpg'' 10"
  let ?p = "example_part ''evil.exe'' 10"
  let ?req = "example_request (POST_upload [?ok, ?p])"
  let ?d = "example_disk @ [(''/srv/up/1700000000000-ok.jpg'',
              \<lparr>kind = RegularFile, size_bytes = 10, mtimeMs = 1700000000001,
               remove_error = None\<rparr>)]"
  have e: "allowedExtensions (example_settings\<lparr>allowedExtensions := []\<rparr>) = []" by simp
  have a1: "exact_match example_settings (credentials ?req)" by code_simp
  have a2: "body_error ?req = None" by code_simp
  have a3: "route ?req = Routed (POST_upload [?ok, ?p])" by code_simp
  have a4: "allowedExtensions example_settings \<noteq> []" by code_simp
  have a5: "?p \<in> set [?ok, ?p]" by simp
  have a6: "named ?p" by code_simp
  have a7: "fileExtension (originalname ?p) \<notin> set (allowedExtensions example_settings)"
    by code_simp
  have free: "\<not> pathExists example_disk (storage_path example_settings ?p)" by code_simp
  have b1: "[?ok, ?p] = [?ok] @ ?p # []" by simp
  have b2: "upload_array example_settings [?ok] example_disk = Parsed [''ok.jpg''] ?d"
    by code_simp
  have b3: "length [''ok.jpg''] < maxFiles example_settings" by code_simp
  have b4: "fieldname ?p = ''file''" by code_simp
  have msg: "invalid_file_type example_settings
             = ''Invalid file type. Allowed extensions are: jpg, png''" by code_simp
  note t1 = disallowed_extension_is_rejected
    [where cfg = "example_settings\<lparr>allowedExtensions := []\<rparr>" and original = "''evil.exe''",
      THEN conjunct1, rule_format, OF e]
  note t2 = disallowed_extension_is_rejected
    [where cfg = example_settings and req = ?req and parts = "[?ok, ?p]" and p = ?p
       and disk = example_disk and before = "[?ok]" and rest = "[]" and files = "[''ok.jpg'']"
       and d = ?d, THEN conjunct2, rule_format]
  have prem: "exact_match example_settings (credentials ?req) \<and> body_error ?req = None
        \<and> route ?req = Routed (POST_upload [?ok, ?p])
        \<and> allowedExtensions example_settings \<noteq> [] \<and> ?p \<in> set [?ok, ?p]
        \<and> named ?p
        \<and> fileExtension (originalname ?p) \<notin> set (allowedExtensions example_settings)"
    using a1 a2 a3 a4 a5 a6 a7 by blast
  have prem2: "[?ok, ?p] = [?ok] @ ?p # []
        \<and> upload_array example_settings [?ok] example_disk = Parsed [''ok.jpg''] ?d
        \<and> length [''ok.jpg''] < maxFiles example_settings \<and> fieldname ?p = ''file''"
    using b1 b2 b3 b4 by blast
  from t2 [OF prem]
  have c1: "\<not> pathExists (disk_after (handle example_settings ?req example_disk))
              (storage_path example_settings ?p)"
    and c2: "resp (handle example_settings ?req example_disk)
             = send 500 (invalid_file_type example_settings)"
    using prem2 free by blast+
  from c2 msg have c3: "resp (handle example_settings ?req example_disk)
       = send 500 ''Invalid file type. Allowed extensions are: jpg, png''" by simp
  from t1 a1 a4 a7 free b2 c3 c1 show ?thesis by blast
qed

text \<open>
  Claim C4, as the code has it. An upload with more file parts than \<open>maxFiles\<close>, or with a
  file part longer than \<open>maxSize\<close>, is answered with status 500, by the global error
  handler, and so not with the redirect. When the parts before the offending one are
  accepted, the body is multer's message. For one file too many it is
  \<^verbatim>\<open>Unexpected field\<close>, and nothing of that part is written: the path at which it would
  be stored, if free before the request, is free after it. For a part over the size
  limit, in the field \<^verbatim>\<open>file\<close>, that the filter lets through and the storage writes, it
  is \<^verbatim>\<open>File too large\<close>, and what is written of the part is not the whole of it: the
  write has stopped at \<open>maxSize\<close> bytes.
\<close>

theorem limit_violation_is_rejected:
  "exact_match cfg (credentials req) \<Longrightarrow> body_error req = None
   \<Longrightarrow> route req = Routed (POST_upload parts) \<Longrightarrow>
     (maxFiles cfg < length (filter named parts)
        \<or> (\<exists>p \<in> set parts. named p \<and> maxSize cfg < bytes p)
      \<longrightarrow> status (resp (handle cfg req disk)) = 500
          \<and> resp (handle cfg req disk) \<noteq> redirect ''/'')
     \<and> (parts = before @ p # rest \<and> upload_array cfg before disk = Parsed files d
          \<and> named p \<and> length files = maxFiles cfg
        \<longrightarrow> resp (handle cfg req disk) = send 500 ''Unexpected field''
            \<and> (\<not> pathExists disk (storage_path cfg p)
                 \<longrightarrow> \<not> pathExists (disk_after (handle cfg req disk)) (storage_path cfg p)))
     \<and> (parts = before @ p # rest \<and> upload_array cfg before disk = Parsed files d
          \<and> named p \<and> length files < maxFiles cfg \<and> fieldname p = ''file''
          \<and> snd (fileFilter cfg (originalname p)) = None
          \<and> handleFile cfg d p = Inr (finalPath, d') \<and> maxSize cfg < bytes p
        \<longrightarrow> resp (handle cfg req disk) = send 500 ''File too large''
            \<and> (\<exists>st. fs_stat d' finalPath = Some st \<and> size_bytes st = maxSize cfg
                     \<and> size_bytes st < bytes p))"
proof -
  assume ok: "exact_match cfg (credentials req)" and nb: "body_error req = None"
    and r: "route req = Routed (POST_upload parts)"
  have h: "handle cfg req disk = upload_route cfg parts disk"
    using ok nb r by (rule handle_upload)
  have general: "status (resp (handle cfg req disk)) = 500
            \<and> resp (handle cfg req disk) \<noteq> redirect ''/''"
    if v: "maxFiles cfg < length (filter named parts)
           \<or> (\<exists>p \<in> set parts. named p \<and> maxSize cfg < bytes p)"
  proof -
    have "\<forall>files d. upload_array cfg parts disk \<noteq> Parsed files d"
    proof (intro allI notI)
      fix files d assume "upload_array cfg parts disk = Parsed files d"
      from upload_array_parsed [OF this] v show False
        by (fastforce simp: limit_reached_def)
    qed
    then obtain err d' where "upload_array cfg parts disk = Failed err d'"
      using not_parsed_failed by blast
    from failed_status [OF this] have "status (resp (handle cfg req disk)) = 500"
      using h by simp
    moreover have "status (redirect ''/'') = 302" by (simp add: redirect_def)
    ultimately show ?thesis by auto
  qed
  have count: "resp (handle cfg req disk) = send 500 ''Unexpected field''
            \<and> (\<not> pathExists disk (storage_path cfg p)
                 \<longrightarrow> \<not> pathExists (disk_after (handle cfg req disk)) (storage_path cfg p))"
    if b: "parts = before @ p # rest \<and> upload_array cfg before disk = Parsed files d
          \<and> named p \<and> length files = maxFiles cfg"
  proof -
    from b obtain ups where
      "upload_array cfg parts disk
       = multer_parts cfg (maxFiles cfg - length files) files ups d (p # rest)"
      using first_error [of cfg before disk files d p rest] by auto
    then have failed: "upload_array cfg parts disk
        = Failed LIMIT_UNEXPECTED_FILE (remove_uploaded d ups)"
      using b by (simp add: named_def)
    from failed_response [OF failed] failed_leaves_free [OF failed]
    show ?thesis using h by simp
  qed
  have size: "resp (handle cfg req disk) = send 500 ''File too large''
            \<and> (\<exists>st. fs_stat d' finalPath = Some st \<and> size_bytes st = maxSize cfg
                     \<and> size_bytes st < bytes p)"
    if b: "parts = before @ p # rest \<and> upload_array cfg before disk = Parsed files d
          \<and> named p \<and> length files < maxFiles cfg \<and> fieldname p = ''file''
          \<and> snd (fileFilter cfg (originalname p)) = None
          \<and> handleFile cfg d p = Inr (finalPath, d') \<and> maxSize cfg < bytes p"
  proof -
    from b obtain ups where
      "upload_array cfg parts disk
       = multer_parts cfg (maxFiles cfg - length files) files ups d (p # rest)"
      using first_error [of cfg before disk files d p rest] by auto
    then have "upload_array cfg parts disk
        = Failed LIMIT_FILE_SIZE (remove_uploaded d' (ups @ [finalPath]))"
      using b by (simp add: named_def limit_reached_def)
    from failed_response [OF this]
    have "resp (handle cfg req disk) = send 500 ''File too large''" using h by simp
    moreover have "fs_stat d' finalPath = Some \<lparr>kind = RegularFile,
           size_bytes = min (bytes p) (maxSize cfg), mtimeMs = written p, remove_error = None\<rparr>"
      using handleFile_path [of cfg d p finalPath d'] b fs_stat_fs_put by simp
    ultimately show ?thesis using b by simp
  qed
  from general count size show ?thesis by blast
qed

text \<open>
  Claim C4, as stated, fails: with the size limit 100, the upload of a part of 101 bytes
  is answered with status 500, not 400. And the message names a limit only when no other
  part fails first: three parts where two are allowed, the first of them with an
  extension that is not allowed, get the message of the file filter.
\<close>

theorem limit_violation_status_counterexample:
  "maxSize example_settings < bytes (example_part ''big.png'' 101)
   \<and> resp (handle example_settings
        (example_request (POST_upload [example_part ''big.png'' 101])) example_disk)
       = send 500 ''File too large''
   \<and> status (resp (handle example_settings
        (example_request (POST_upload [example_part ''big.png'' 101])) example_disk)) \<noteq> 400
   \<and> maxFiles example_settings
       < length (filter named [example_part ''evil.exe'' 10, example_part ''a.jpg'' 10,
                               example_part ''b.png'' 10])
   \<and> resp (handle example_settings
        (example_request (POST_upload [example_part ''evil.exe'' 10, example_part ''a.jpg'' 10,
                                       example_part ''b.png'' 10])) example_disk)
       = send 500 ''Invalid file type. Allowed extensions are: jpg, png''"
  by code_simp

text \<open>Three files where two are allowed, and one file of 101 bytes where 100 are.\<close>

theorem limit_violation_is_rejected_witness:
  "exact_match example_settings
     (credentials (example_request (POST_upload
        [example_part ''a.jpg'' 10, example_part ''b.png'' 10, example_part ''c.png'' 10])))
   \<and> maxFiles example_settings
       < length (filter named [example_part ''a.jpg'' 10, example_part ''b.png'' 10,
                               example_part ''c.png'' 10])
   \<and> resp (handle example_settings (example_request (POST_upload
        [example_part ''a.jpg'' 10, example_part ''b.png'' 10, example_part ''c.png'' 10]))
        example_disk) = send 500 ''Unexpected field''
   \<and> \<not> pathExists (disk_after (handle example_settings (example_request (POST_upload
        [example_part ''a.jpg'' 10, example_part ''b.png'' 10, example_part ''c.png'' 10]))
        example_disk)) (storage_path example_settings (example_part ''c.png'' 10))
   \<and> maxSize example_settings < bytes (example_part ''big.png'' 101)
   \<and> resp (handle example_settings (example_request (POST_upload [example_part ''big.png'' 101]))
        example_disk) = send 500 ''File too large''
   \<and> handleFile example_settings example_disk (example_part ''big.png'' 101)
       = Inr (''/srv/up/1700000000000-big.png'',
              example_disk @ [(''/srv/up/1700000000000-big.png'',
                \<lparr>kind = RegularFile, size_bytes = 100, mtimeMs = 1700000000001,
                 remove_error = None\<rparr>)])"
proof -
  let ?a = "example_part ''a.jpg'' 10"
  let ?b = "example_part ''b.png'' 10"
  let ?c = "example_part ''c.png'' 10"
  let ?big = "example_part ''big.png'' 101"
  let ?req3 = "example_request (POST_upload [?a, ?b, ?c])"
  let ?req1 = "example_request (POST_upload [?big])"
  let ?d2 = "example_disk @ [(''/srv/up/1700000000000-a.jpg'',
                \<lparr>kind = RegularFile, size_bytes = 10, mtimeMs = 1700000000001,
                 remove_error = None\<rparr>),
              (''/srv/up/1700000000000-b.png'',
                \<lparr>kind = RegularFile, size_bytes = 10, mtimeMs = 1700000000001,
                 remove_error = None\<rparr>)]"
  let ?path = "''/srv/up/1700000000000-big.png''"
  let ?d' = "example_disk @ [(?path,
               \<lparr>kind = RegularFile, size_bytes = 100, mtimeMs = 1700000000001,
                remove_error = None\<rparr>)]"
  have ok3: "exact_match example_settings (credentials ?req3)" by code_simp
  have nb3: "body_error ?req3 = None" by code_simp
  have r3: "route ?req3 = Routed (POST_upload [?a, ?b, ?c])" by code_simp
  have ok1: "exact_match example_settings (credentials ?req1)" by code_simp
  have nb1: "body_error ?req1 = None" by code_simp
  have r1: "route ?req1 = Routed (POST_upload [?big])" by code_simp
  have many: "maxFiles example_settings < length (filter named [?a, ?b, ?c])" by code_simp
  have big: "maxSize example_settings < bytes ?big" by code_simp
  have free: "\<not> pathExists example_disk (storage_path example_settings ?c)" by code_simp
  have hf: "handleFile example_settings example_disk ?big = Inr (?path, ?d')" by code_simp
  have count_prem: "[?a, ?b, ?c] = [?a, ?b] @ ?c # []
      \<and> upload_array example_settings [?a, ?b] example_disk = Parsed [''a.jpg'', ''b.png''] ?d2
      \<and> named ?c \<and> length [''a.jpg'', ''b.png''] = maxFiles example_settings"
    by code_simp
  have size_prem: "[?big] = [] @ ?big # []
      \<and> upload_array example_settings [] example_disk = Parsed [] example_disk
      \<and> named ?big \<and> length ([] :: string list) < maxFiles example_settings
      \<and> fieldname ?big = ''file''
      \<and> snd (fileFilter example_settings (originalname ?big)) = None
      \<and> handleFile example_settings example_disk ?big = Inr (?path, ?d')
      \<and> maxSize example_settings < bytes ?big"
    by code_simp
  note t3 = limit_violation_is_rejected [OF ok3 nb3 r3, where disk = example_disk
      and before = "[?a, ?b]" and p = ?c and rest = "[]" and files = "[''a.jpg'', ''b.png'']"
      and d = ?d2]
  note t1 = limit_violation_is_rejected [OF ok1 nb1 r1, where disk = example_disk
      and before = "[]" and p = ?big and rest = "[]" and files = "[]" and d = example_disk
      and finalPath = ?path and d' = ?d']
  from t3 count_prem free
  have c: "resp (handle example_settings ?req3 example_disk) = send 500 ''Unexpected field''"
    and g: "\<not> pathExists (disk_after (handle example_settings ?req3 example_disk))
              (storage_path example_settings ?c)"
    by blast+
  from t1 size_prem
  have s: "resp (handle example_settings ?req1 example_disk) = send 500 ''File too large''"
    by blast
  from ok3 many c g big s hf show ?thesis by blast
qed

subsection \<open>The allow-list option\<close>

lemma trim_Nil: "trim [] = []"
  by (simp add: trim_def)

lemma toLowerCase_Nil: "toLowerCase [] = []"
  by (simp add: toLowerCase_def)

lemma empty_entry_parsed:
  "extensions \<noteq> [] \<Longrightarrow> [] \<in> set (split_on (CHR '','') extensions)
     \<Longrightarrow> [] \<in> set (parse_extensions extensions)"
proof -
  assume ne: "extensions \<noteq> []" and e: "[] \<in> set (split_on (CHR '','') extensions)"
  have "toLowerCase (trim [])
        \<in> (\<lambda>ext. toLowerCase (trim ext)) ` set (split_on (CHR '','') extensions)"
    using e by (rule imageI)
  then show ?thesis using ne by (simp add: parse_extensions_def trim_Nil toLowerCase_Nil)
qed

text \<open>
  Claim C9. When the \<^verbatim>\<open>--extensions\<close> option is given and one of its comma-separated
  entries is empty, the allow-list is not empty and holds the empty string, and the file
  filter lets every original name without an extension through.
\<close>

theorem empty_extension_entry_admits_files_without_extension:
  "extensions \<noteq> [] \<Longrightarrow> [] \<in> set (split_on (CHR '','') extensions)
   \<Longrightarrow> allowedExtensions cfg = parse_extensions extensions
   \<Longrightarrow> allowedExtensions cfg \<noteq> []
       \<and> [] \<in> set (allowedExtensions cfg)
       \<and> (\<forall>original. path_extname original = []
             \<longrightarrow> snd (fileFilter cfg original) = None)"
proof -
  assume ne: "extensions \<noteq> []" and e: "[] \<in> set (split_on (CHR '','') extensions)"
    and cfg: "allowedExtensions cfg = parse_extensions extensions"
  have mem: "[] \<in> set (allowedExtensions cfg)"
    using empty_entry_parsed [OF ne e] cfg by simp
  then have nonempty: "allowedExtensions cfg \<noteq> []" by auto
  have "snd (fileFilter cfg original) = None" if "path_extname original = []" for original
    using that mem
    by (simp add: fileFilter_result fileExtension_def toLowerCase_Nil remove_first_dot_def)
  with mem nonempty show ?thesis by blast
qed

text \<open>The option \<^verbatim>\<open>jpg,\<close> and the file \<^verbatim>\<open>README\<close>.\<close>

theorem empty_extension_entry_witness:
  "''jpg,'' \<noteq> [] \<and> [] \<in> set (split_on (CHR '','') ''jpg,'')
   \<and> parse_extensions ''jpg,'' = [''jpg'', '''']
   \<and> path_extname ''README'' = []
   \<and> snd (fileFilter (example_settings\<lparr>allowedExtensions := parse_extensions ''jpg,''\<rparr>)
            ''README'') = None
   \<and> resp (handle (example_settings\<lparr>allowedExtensions := parse_extensions ''jpg,''\<rparr>)
        (example_request (POST_upload [example_part ''README'' 10])) example_disk) = redirect ''/''
   \<and> pathExists
        (disk_after (handle (example_settings\<lparr>allowedExtensions := parse_extensions ''jpg,''\<rparr>)
           (example_request (POST_upload [example_part ''README'' 10])) example_disk))
        ''/srv/up/1700000000000-README''"
proof -
  have stored:
    "resp (handle (example_settings\<lparr>allowedExtensions := parse_extensions ''jpg,''\<rparr>)
        (example_request (POST_upload [example_part ''README'' 10])) example_disk) = redirect ''/''
     \<and> pathExists
        (disk_after (handle (example_settings\<lparr>allowedExtensions := parse_extensions ''jpg,''\<rparr>)
           (example_request (POST_upload [example_part ''README'' 10])) example_disk))
        ''/srv/up/1700000000000-README''"
    by code_simp
  have a: "''jpg,'' \<noteq> []" by simp
  have b: "[] \<in> set (split_on (CHR '','') ''jpg,'')" by simp
  have c: "allowedExtensions (example_settings\<lparr>allowedExtensions := parse_extensions ''jpg,''\<rparr>)
           = parse_extensions ''jpg,''"
    by simp
  have d: "path_extname ''README'' = []" by (simp add: path_extname_def path_basename_def)
  have e: "parse_extensions ''jpg,'' = [''jpg'', '''']" by code_simp
  show ?thesis
    using empty_extension_entry_admits_files_without_extension [OF a b c] a b d e stored
    by blast
qed

subsection \<open>The names of the stored files\<close>

lemma names_clean_iff:
  "names_clean cfg disk \<longleftrightarrow>
     (\<forall>(p, st) \<in> set disk. \<forall>name. entry_name (uploadDir cfg) p = Some name
        \<longrightarrow> clean_name name)"
  by (auto simp: names_clean_def stored_names_def list_all_iff List.map_filter_def)

lemma names_clean_subset:
  "names_clean cfg disk \<Longrightarrow> set disk' \<subseteq> set disk \<Longrightarrow> names_clean cfg disk'"
  unfolding names_clean_iff by blast

text \<open>The file that the disk storage writes is an entry of the upload directory under its
  storage name.\<close>

lemma handleFile_names_clean:
  assumes "is_resolved (uploadDir cfg)" "names_clean cfg disk"
    and "handleFile cfg disk p = Inr (finalPath, disk')"
  shows "names_clean cfg disk'"
proof -
  let ?n = "storage_filename (now p) (originalname p)"
  from handleFile_path [OF assms(3)]
  have fp: "finalPath = path_join (uploadDir cfg) ?n" by (simp add: storage_path_def)
  from handleFile_subset [OF assms(3)]
  obtain st where sub: "set disk' \<subseteq> insert (finalPath, st) (set disk)" by blast
  have "finalPath = dir_prefix (uploadDir cfg) @ ?n"
    using fp path_join_plain [OF assms(1) storage_filename_plain] by simp
  then have "entry_name (uploadDir cfg) finalPath = Some ?n"
    using entry_name_entry storage_filename_plain by (simp add: plain_segment_def)
  then show ?thesis
    using assms(2) sub storage_filename_clean unfolding names_clean_iff by fastforce
qed

lemma remove_uploaded_names_clean:
  "names_clean cfg disk \<Longrightarrow> names_clean cfg (remove_uploaded disk ups)"
  by (rule names_clean_subset) (auto simp: set_remove_uploaded)

lemma multer_parts_names_clean:
  assumes "is_resolved (uploadDir cfg)"
  shows "names_clean cfg disk \<Longrightarrow>
         names_clean cfg (result_disk (multer_parts cfg n files ups disk ps))"
proof (induction ps arbitrary: n files ups disk)
  case Nil
  then show ?case by simp
next
  case (Cons p ps)
  show ?case
  proof (cases "handleFile cfg disk p")
    case (Inl err)
    then show ?thesis
      using Cons by (auto simp: remove_uploaded_names_clean split: option.splits)
  next
    case (Inr r)
    obtain finalPath disk' where r: "r = (finalPath, disk')" by (cases r)
    have "names_clean cfg disk'"
      using handleFile_names_clean [OF assms Cons.prems] Inr r by simp
    then show ?thesis
      using Cons Inr r
      by (auto simp: remove_uploaded_names_clean split: option.splits)
  qed
qed

lemma upload_route_disk:
  "disk_after (upload_route cfg parts disk) = result_disk (upload_array cfg parts disk)"
  by (simp add: upload_route_def global_error_handler_def split: multer_result.splits)

lemma delete_route_names_clean:
  "names_clean cfg disk \<Longrightarrow> names_clean cfg (disk_after (delete_route cfg filename disk))"
  using names_clean_subset [OF _ set_fs_remove]
  by (simp add: delete_route_def delete_file_def Let_def split: prod.splits option.splits)
     (metis snd_conv)

text \<open>Every request keeps the names clean: uploads add storage names only, every other
  route adds nothing.\<close>

lemma handle_names_clean:
  assumes "is_resolved (uploadDir cfg)" "names_clean cfg disk"
  shows "names_clean cfg (disk_after (handle cfg req disk))"
proof (cases "body_error req")
  case (Some msg)
  then show ?thesis using assms(2) by (simp add: handle_def global_error_handler_def)
next
  case no_body_error: None
  show ?thesis
  proof (cases "route req")
    case (Undecodable msg)
    then show ?thesis
      using no_body_error assms(2) by (simp add: handle_def global_error_handler_def)
  next
    case (Routed r)
    show ?thesis
    proof (cases "auth cfg (credentials req)")
      case (Some denied)
      then show ?thesis using no_body_error Routed assms(2) by (simp add: handle_def)
    next
      case None
      then have h: "handle cfg req disk =
         (case r of
            GET_index \<Rightarrow> index_route cfg disk
          | POST_upload parts \<Rightarrow> upload_route cfg parts disk
          | GET_info filename \<Rightarrow> info_route cfg filename disk
          | GET_delete filename \<Rightarrow> delete_page_route cfg filename disk
          | POST_delete filename \<Rightarrow> delete_route cfg filename disk
          | GET_files sub \<Rightarrow> files_route cfg sub disk)"
        using no_body_error Routed by (simp add: handle_def)
      show ?thesis
      proof (cases r)
        case GET_index
        then show ?thesis
          using h assms(2) by (simp add: index_route_def split: prod.splits)
      next
        case (POST_upload parts)
        then show ?thesis
          using h multer_parts_names_clean [OF assms]
          by (simp add: upload_route_disk upload_array_def)
      next
        case (GET_info filename)
        then show ?thesis
          using h assms(2) by (simp add: info_route_def Let_def split: option.splits)
      next
        case (GET_delete filename)
        then show ?thesis
          using h assms(2) by (simp add: delete_page_route_def Let_def)
      next
        case (POST_delete filename)
        then show ?thesis
          using h delete_route_names_clean [OF assms(2)] by simp
      next
        case (GET_files sub)
        then show ?thesis using h assms(2) by (simp add: files_route_def)
      qed
    qed
  qed
qed

lemma serve_names_clean:
  assumes "is_resolved (uploadDir cfg)"
  shows "names_clean cfg disk \<Longrightarrow> names_clean cfg (serve cfg disk reqs)"
  unfolding serve_def
  by (induction reqs arbitrary: disk) (auto simp: handle_names_clean [OF assms])

text \<open>
  Claim C6. If no name of an entry of the upload directory holds a path separator or a
  control character, then this is so after every sequence of requests. An upload is
  written as an entry directly in the upload directory, under its storage name, which
  holds neither, whatever the original name; and the base name that the read and delete
  routes take from the client holds no path separator.
\<close>

theorem stored_names_stay_clean:
  "is_resolved (uploadDir cfg) \<Longrightarrow> names_clean cfg disk \<Longrightarrow>
     names_clean cfg (serve cfg disk reqs)
     \<and> path_join (uploadDir cfg) (storage_filename timestamp original)
         = dir_prefix (uploadDir cfg) @ storage_filename timestamp original
     \<and> clean_name (storage_filename timestamp original)
     \<and> CHR ''/'' \<notin> set (path_basename filename)"
  using serve_names_clean storage_filename_clean basename_no_slash
    path_join_plain [OF _ storage_filename_plain]
  by blast

text \<open>An upload and a delete on the example directory, and a hostile original name.\<close>

theorem stored_names_stay_clean_witness:
  "is_resolved (uploadDir example_settings)
   \<and> names_clean example_settings example_disk
   \<and> names_clean example_settings
        (serve example_settings example_disk
           [example_request (POST_upload [example_part ''my  pic.JPG'' 10]),
            example_request (POST_delete ''../1-a.txt'')])
   \<and> path_join (uploadDir example_settings) (storage_filename 1700000000000 ''../a b.txt'')
       = ''/srv/up/1700000000000-.._a_b.txt''
   \<and> clean_name (storage_filename 1700000000000 ''../a b.txt'')
   \<and> storage_filename 1700000000000 ''../a b.txt'' = ''1700000000000-.._a_b.txt''"
proof -
  have res: "is_resolved (uploadDir example_settings)" by code_simp
  have cl: "names_clean example_settings example_disk" by code_simp
  have ev: "storage_filename 1700000000000 ''../a b.txt'' = ''1700000000000-.._a_b.txt''"
    by code_simp
  have pre: "dir_prefix (uploadDir example_settings) @ ''1700000000000-.._a_b.txt''
             = ''/srv/up/1700000000000-.._a_b.txt''"
    by code_simp
  note c = stored_names_stay_clean [OF res cl, of
      "[example_request (POST_upload [example_part ''my  pic.JPG'' 10]),
        example_request (POST_delete ''../1-a.txt'')]"
      1700000000000 "''../a b.txt''"]
  from c ev pre
  have "path_join (uploadDir example_settings) (storage_filename 1700000000000 ''../a b.txt'')
       = ''/srv/up/1700000000000-.._a_b.txt''"
    by simp
  with c res cl ev show ?thesis by blast
qed

subsection \<open>The listing\<close>

lemma set_sort_insert: "set (sort_insert cmp x ys) = insert x (set ys)"
  by (induction ys) auto

lemma sorted_sort_insert:
  "sorted_wrt newer_or_equal ys \<Longrightarrow> sorted_wrt newer_or_equal (sort_insert newest_first x ys)"
  by (induction ys) (auto simp: set_sort_insert newer_or_equal_def newest_first_def)

text \<open>The sort of line 153 puts the most recent first \<dots>\<close>

lemma array_sort_sorted: "sorted_wrt newer_or_equal (array_sort newest_first xs)"
  unfolding array_sort_def by (induction xs) (auto simp: sorted_sort_insert)

lemma filter_sort_insert:
  "filter (\<lambda>e. snd e = t) (sort_insert newest_first x ys)
   = (if snd x = t then x # filter (\<lambda>e. snd e = t) ys else filter (\<lambda>e. snd e = t) ys)"
  by (induction ys) (auto simp: newest_first_def)

text \<open>\<dots> and keeps the entries of one and the same time in the order they had.\<close>

lemma array_sort_stable:
  "filter (\<lambda>e. snd e = t) (array_sort newest_first xs) = filter (\<lambda>e. snd e = t) xs"
  unfolding array_sort_def by (induction xs) (auto simp: filter_sort_insert)

lemma promise_all_Inr:
  "(\<And>x. x \<in> set xs \<Longrightarrow> f x = Inr (g x)) \<Longrightarrow> promise_all (map f xs) = Inr (map g xs)"
  by (induction xs) auto

text \<open>The enumeration holds the entries directly in the directory, and only them.\<close>

lemma readdir_entries:
  "readdir disk d = Some files \<Longrightarrow>
     set files
     = {name. name \<noteq> [] \<and> CHR ''/'' \<notin> set name \<and> pathExists disk (dir_prefix d @ name)}"
proof -
  assume "readdir disk d = Some files"
  then have files: "files = List.map_filter (\<lambda>(p, st). entry_name d p) disk"
    by (auto simp: readdir_def split: if_splits)
  have "name \<in> set files
        \<longleftrightarrow> name \<noteq> [] \<and> CHR ''/'' \<notin> set name \<and> pathExists disk (dir_prefix d @ name)"
    for name
  proof
    assume "name \<in> set files"
    then obtain p st where in_disk: "(p, st) \<in> set disk" and e: "entry_name d p = Some name"
      unfolding files by (auto simp: List.map_filter_def)
    from e have "p = dir_prefix d @ name" "name \<noteq> []" "CHR ''/'' \<notin> set name"
      by (auto simp: entry_name_def starts_with_def Let_def split: if_splits)
         (metis append_take_drop_id)
    moreover have "p \<in> fst ` set disk" using in_disk by force
    then have "pathExists disk p"
      by (simp add: pathExists_def fs_stat_def map_of_eq_None_iff)
    ultimately
    show "name \<noteq> [] \<and> CHR ''/'' \<notin> set name \<and> pathExists disk (dir_prefix d @ name)"
      by simp
  next
    assume a: "name \<noteq> [] \<and> CHR ''/'' \<notin> set name \<and> pathExists disk (dir_prefix d @ name)"
    then obtain st where "(dir_prefix d @ name, st) \<in> set disk"
      by (auto simp: pathExists_def fs_stat_def dest: map_of_SomeD)
    moreover have "entry_name d (dir_prefix d @ name) = Some name"
      using a by (simp add: entry_name_entry)
    ultimately show "name \<in> set files"
      unfolding files by (force simp: List.map_filter_def)
  qed
  then show ?thesis by blast
qed

text \<open>
  While no enumerated entry vanishes between its existence check and its \<^verbatim>\<open>stat\<close>, the
  listing is the sorted sequence of the entries that exist at the check.
\<close>

lemma listing_without_late_race:
  assumes "readdir at_readdir (uploadDir cfg) = Some files"
    and "\<forall>f \<in> set files. pathExists at_check (path_join (uploadDir cfg) f)
           \<longrightarrow> pathExists at_stat (path_join (uploadDir cfg) f)"
  shows "list_files cfg at_readdir at_check at_stat =
     (render (Render_index (map fst (array_sort newest_first
        (map (\<lambda>f. (f, mtimeMs (the (fs_stat at_stat (path_join (uploadDir cfg) f)))))
           (filter (\<lambda>f. pathExists at_check (path_join (uploadDir cfg) f)) files))))), [])"
proof -
  let ?g = "\<lambda>f. if pathExists at_check (path_join (uploadDir cfg) f)
        then Some (f, mtimeMs (the (fs_stat at_stat (path_join (uploadDir cfg) f)))) else None"
  have "file_detail cfg at_check at_stat f = Inr (?g f)" if "f \<in> set files" for f
    using assms(2) that
    by (auto simp: file_detail_def Let_def pathExists_def split: option.splits)
  then have "promise_all (map (file_detail cfg at_check at_stat) files) = Inr (map ?g files)"
    by (rule promise_all_Inr)
  moreover have "map the (filter (\<lambda>d. d \<noteq> None) (map ?g files))
      = map (\<lambda>f. (f, mtimeMs (the (fs_stat at_stat (path_join (uploadDir cfg) f)))))
           (filter (\<lambda>f. pathExists at_check (path_join (uploadDir cfg) f)) files)"
    by (induction files) auto
  ultimately show ?thesis
    using assms(1) by (simp add: list_files_def sortedFiles_def)
qed

text \<open>An entry that is gone when its existence is checked is dropped without an error.\<close>

lemma listing_drops_vanished_entry:
  "list_files example_settings example_disk (fs_unlink example_disk ''/srv/up/2-b.txt'')
        (fs_unlink example_disk ''/srv/up/2-b.txt'')
      = (render (Render_index [''1-a.txt'', ''3-c.txt'']), [])"
  by code_simp

text \<open>
  Claim C7. The listing enumerates the entries directly in the upload directory and
  sorts them, most recent first and stably; but an entry that vanishes after the
  enumeration is not always dropped. \<^verbatim>\<open>2-b.txt\<close> is enumerated and passes its existence
  check; when it is removed before its \<^verbatim>\<open>stat\<close>, the request fails with status 500.
\<close>

theorem entry_vanishing_before_stat_fails_listing:
  "pathExists example_disk ''/srv/up/2-b.txt''
   \<and> \<not> pathExists (fs_unlink example_disk ''/srv/up/2-b.txt'') ''/srv/up/2-b.txt''
   \<and> list_files example_settings example_disk example_disk
        (fs_unlink example_disk ''/srv/up/2-b.txt'')
      = (send 500 ''Internal Server Error'',
         [(ERROR, [''Error reading files:'',
                   ''ENOENT: no such file or directory, stat '' @ quoted ''/srv/up/2-b.txt''])])"
  by code_simp

end
